theory Spec2Isabelle
  imports Complex_Main
begin

section \<open>Python values, errors and string operations\<close>

text \<open>
  The script is Python 2: a \<^verbatim>\<open>str\<close> is a byte string, modelled as \<open>string\<close>. Exceptions
  that the script does not catch, and \<^verbatim>\<open>sys.exit\<close>, end the run; they are values of
  \<open>exit\<close>. \<^verbatim>\<open>sys.exit()\<close> carries no status (the process status is 0),
  \<^verbatim>\<open>sys.exit(-1)\<close> carries \<open>-1\<close> (the process status is 255), an uncaught exception
  gives status 1.
\<close>

datatype py_error =
    TypeError | IndexError | ValueError | RuntimeError | MaskError | UnboundLocalError
  | OverflowError

datatype exit = SysExit "int option" | Raised py_error

fun exit_status :: "exit \<Rightarrow> int" where
  "exit_status (SysExit None) = 0"
| "exit_status (SysExit (Some n)) = n mod 256"
| "exit_status (Raised e) = 1"

text \<open>A value that is either a \<^verbatim>\<open>str\<close> or an \<^verbatim>\<open>int\<close>, as \<^verbatim>\<open>determine_table\<close> returns.\<close>

datatype pyval = PyStr string | PyInt int

text \<open>
  Sequencing of steps that may raise: the first exception ends the sequence. \<open>for_each\<close>
  applies a step to every element of a list, from the left.
\<close>

definition and_then :: "py_error + 'a \<Rightarrow> ('a \<Rightarrow> py_error + 'b) \<Rightarrow> py_error + 'b" where
  "and_then r k = (case r of Inr v \<Rightarrow> k v | Inl err \<Rightarrow> Inl err)"

fun for_each :: "('a \<Rightarrow> py_error + 'b) \<Rightarrow> 'a list \<Rightarrow> py_error + 'b list" where
  "for_each g [] = Inr []"
| "for_each g (a # rest) =
     and_then (g a) (\<lambda>b. and_then (for_each g rest) (\<lambda>bs. Inr (b # bs)))"

text \<open>
  Indexing \<^verbatim>\<open>xs[i]\<close> with Python's rule for negative indices; out of range raises
  \<^verbatim>\<open>IndexError\<close>.
\<close>

definition py_index :: "'a list \<Rightarrow> int \<Rightarrow> py_error + 'a" where
  "py_index xs i =
     (if 0 \<le> i \<and> i < int (length xs) then Inr (xs ! nat i)
      else if i < 0 \<and> - int (length xs) \<le> i then Inr (xs ! nat (int (length xs) + i))
      else Inl IndexError)"

definition is_digit :: "char \<Rightarrow> bool" where
  "is_digit c = (c \<in> set ''0123456789'')"

definition is_space :: "char \<Rightarrow> bool" where
  "is_space c = (c \<in> {CHR '' '', CHR 0x09, CHR 0x0A, CHR 0x0B, CHR 0x0C, CHR 0x0D})"

text \<open>\<^verbatim>\<open>str.upper()\<close> on a byte string: the ASCII letters a to z move to A to Z.\<close>

definition upper_char :: "char \<Rightarrow> char" where
  "upper_char c =
     (case map_of (zip ''abcdefghijklmnopqrstuvwxyz'' ''ABCDEFGHIJKLMNOPQRSTUVWXYZ'') c of
        Some u \<Rightarrow> u
      | None \<Rightarrow> c)"

definition upper :: "string \<Rightarrow> string" where
  "upper s = map upper_char s"

text \<open>\<^verbatim>\<open>s.rstrip("/")\<close>: every trailing slash is removed.\<close>

definition rstrip :: "char \<Rightarrow> string \<Rightarrow> string" where
  "rstrip c s = rev (dropWhile (\<lambda>x. x = c) (rev s))"

text \<open>\<^verbatim>\<open>s.split(',')\<close>: the fields between the commas; an empty string gives one empty field.\<close>

fun split :: "char \<Rightarrow> string \<Rightarrow> string list" where
  "split sep [] = [[]]"
| "split sep (c # cs) =
     (if c = sep then [] # split sep cs
      else (case split sep cs of f # fs \<Rightarrow> (c # f) # fs | [] \<Rightarrow> [[c]]))"

text \<open>\<^verbatim>\<open>sub in s\<close> for two strings: \<open>sub\<close> occurs in \<open>s\<close> as a contiguous run.\<close>

fun starts_with :: "string \<Rightarrow> string \<Rightarrow> bool" where
  "starts_with [] s = True"
| "starts_with (a # as) [] = False"
| "starts_with (a # as) (b # bs) = (a = b \<and> starts_with as bs)"

fun contains :: "string \<Rightarrow> string \<Rightarrow> bool" where
  "contains sub [] = (sub = [])"
| "contains sub (c # cs) = (starts_with sub (c # cs) \<or> contains sub cs)"

text \<open>
  \<^verbatim>\<open>sub in v\<close> where \<open>v\<close> may be an \<^verbatim>\<open>int\<close>: an \<^verbatim>\<open>int\<close> is not iterable and the test
  raises \<^verbatim>\<open>TypeError\<close>.
\<close>

fun py_in :: "string \<Rightarrow> pyval \<Rightarrow> py_error + bool" where
  "py_in sub (PyStr s) = Inr (contains sub s)"
| "py_in sub (PyInt n) = Inl TypeError"

text \<open>
  \<^verbatim>\<open>int(s)\<close> for a string: blanks around the literal are dropped, then an optional sign and
  one or more decimal digits are read; any other string raises \<^verbatim>\<open>ValueError\<close>.
\<close>

definition digit_val :: "char \<Rightarrow> nat" where
  "digit_val c = of_char c - 48"

definition digits_val :: "string \<Rightarrow> nat" where
  "digits_val ds = foldl (\<lambda>acc d. 10 * acc + digit_val d) 0 ds"

definition py_int :: "string \<Rightarrow> py_error + int" where
  "py_int s =
     (let t = rev (dropWhile is_space (rev (dropWhile is_space s)));
          (neg, ds) = (case t of
                         c # r \<Rightarrow> if c = CHR ''-'' then (True, r)
                                  else if c = CHR ''+'' then (False, r) else (False, t)
                       | [] \<Rightarrow> (False, []))
      in if ds \<noteq> [] \<and> list_all is_digit ds
         then Inr (if neg then - int (digits_val ds) else int (digits_val ds))
         else Inl ValueError)"

text \<open>\<^verbatim>\<open>str(n)\<close> for an integer: the decimal digits, with a minus sign when negative.\<close>

fun nat_digits :: "nat \<Rightarrow> string" where
  "nat_digits n =
     (if n < 10 then [''0123456789'' ! n]
      else nat_digits (n div 10) @ [''0123456789'' ! (n mod 10)])"

definition py_str :: "int \<Rightarrow> string" where
  "py_str n = (if n < 0 then CHR ''-'' # nat_digits (nat (- n)) else nat_digits (nat n))"

section \<open>Table kind: \<^verbatim>\<open>determine_table\<close> (lines 42 to 53)\<close>

text \<open>
  The pattern is \<^verbatim>\<open>\.(G|K|B)\d*$\<close> compiled with \<^verbatim>\<open>re.I\<close>, used with \<^verbatim>\<open>search\<close>. On a byte
  string \<^verbatim>\<open>\d\<close> is an ASCII digit, and \<^verbatim>\<open>re.I\<close> lets the group match either case. Without
  \<^verbatim>\<open>re.M\<close>, \<^verbatim>\<open>$\<close> matches at the end of the string and also just before a newline that is
  the last character. \<open>match_here\<close> tries the pattern at the start of its argument and
  returns the matched text: \<^verbatim>\<open>\d*\<close> is greedy, and giving a digit back can not help,
  since \<^verbatim>\<open>$\<close> then stands before a digit. \<open>search\<close> tries each start position from
  the left, as \<^verbatim>\<open>pattern.search\<close> does.
\<close>

definition kind_letter :: "char \<Rightarrow> bool" where
  "kind_letter c = (c \<in> set ''GKBgkb'')"

definition newline :: char where
  "newline = CHR 0x0A"

fun match_here :: "string \<Rightarrow> string option" where
  "match_here (d # c # rest) =
     (if d = CHR ''.'' \<and> kind_letter c
      then (let tail = dropWhile is_digit rest
            in if tail = [] \<or> tail = [newline]
               then Some (d # c # takeWhile is_digit rest) else None)
      else None)"
| "match_here s = None"

fun search :: "string \<Rightarrow> string option" where
  "search [] = match_here []"
| "search (c # cs) =
     (case match_here (c # cs) of Some m \<Rightarrow> Some m | None \<Rightarrow> search cs)"

text \<open>
  \<^verbatim>\<open>found.group()\<close> raises \<^verbatim>\<open>AttributeError\<close> when \<^verbatim>\<open>found\<close> is \<^verbatim>\<open>None\<close>; the handler
  returns the integer \<open>-1\<close>.
\<close>

definition determine_table :: "string \<Rightarrow> pyval" where
  "determine_table table_name =
     (case search table_name of
        Some result \<Rightarrow> PyStr (upper result)
      | None \<Rightarrow> PyInt (- 1))"

text \<open>
  The specification's wording of the pattern, for comparison: the name ends with a dot, one
  of the letters G, K, B in either case, and zero or more digits. The result is that suffix.
\<close>

definition spec_kind_suffix :: "string \<Rightarrow> string option" where
  "spec_kind_suffix s =
     (let r = rev s; ds = takeWhile is_digit r
      in case dropWhile is_digit r of
           c # d # pre \<Rightarrow>
             if kind_letter c \<and> d = CHR ''.'' then Some (d # c # rev ds) else None
         | _ \<Rightarrow> None)"

definition spec_determine_table :: "string \<Rightarrow> pyval" where
  "spec_determine_table s =
     (case spec_kind_suffix s of Some m \<Rightarrow> PyStr (upper m) | None \<Rightarrow> PyInt (- 1))"

section \<open>Floating-point values\<close>

text \<open>
  The numbers of the program are float64 and complex128. They are modelled as real and
  complex numbers: rounding is not modelled. One thing of a float that a real number does
  not have changes a result by more than rounding: the sign of a zero, which
  \<^verbatim>\<open>np.angle\<close> reads. An element of a complex column therefore carries, besides its value,
  the sign bits of its two parts, and an element of the error column its sign bit. A sign
  bit is looked at only where the part is zero (\<open>True\<close> stands for \<^verbatim>\<open>-0.0\<close>).
\<close>

record cfloat =
  c_value :: complex
  re_negzero :: bool
  im_negzero :: bool

record rfloat =
  r_value :: real
  r_negzero :: bool

section \<open>Arrays, masked arrays and the numpy functions used\<close>

text \<open>
  A column read from a table is a three-dimensional array indexed by row (time sample),
  channel and correlation. An array is its shape and the function from in-range indices to
  cells, so it is rectangular and has a shape also when it has no rows. A masked array
  pairs the data with a mask (\<open>True\<close> marks a flagged cell).
\<close>

record 'a ndarray =
  shape :: "nat \<times> nat \<times> nat"
  cell :: "nat \<Rightarrow> nat \<Rightarrow> nat \<Rightarrow> 'a"

record 'a masked_array =
  ma_data :: "'a ndarray"
  ma_mask :: "bool ndarray"

text \<open>
  A one-dimensional result is either still a masked array, or a plain array (after
  \<^verbatim>\<open>np.array\<close>, \<^verbatim>\<open>np.unwrap\<close>, which read the data under the mask and return no mask).
\<close>

datatype 'a series = Masked "'a list" "bool list" | Plain "'a list"

fun series_data :: "'a series \<Rightarrow> 'a list" where
  "series_data (Masked d m) = d"
| "series_data (Plain d) = d"

text \<open>
  A function applied to every cell (\<^verbatim>\<open>np.abs\<close>, \<^verbatim>\<open>np.real\<close>, \<^verbatim>\<open>np.imag\<close>, \<^verbatim>\<open>np.angle\<close> on a
  masked array): the data is transformed cell by cell, the mask is kept.
\<close>

definition arr_map :: "('a \<Rightarrow> 'b) \<Rightarrow> 'a ndarray \<Rightarrow> 'b ndarray" where
  "arr_map f a = \<lparr>shape = shape a, cell = (\<lambda>t c k. f (cell a t c k))\<rparr>"

definition ma_map :: "('a \<Rightarrow> 'b) \<Rightarrow> 'a masked_array \<Rightarrow> 'b masked_array" where
  "ma_map f m = \<lparr>ma_data = arr_map f (ma_data m), ma_mask = ma_mask m\<rparr>"

fun series_map :: "('a \<Rightarrow> 'b) \<Rightarrow> 'a series \<Rightarrow> 'b series" where
  "series_map f (Masked d m) = Masked (map f d) m"
| "series_map f (Plain d) = Plain (map f d)"

text \<open>
  An index \<open>i\<close> is valid on an axis of length \<open>n\<close> when \<open>-n \<le> i < n\<close>; a negative index
  counts from the end, and \<open>position n i\<close> is the place it selects.
\<close>

definition valid_index :: "nat \<Rightarrow> int \<Rightarrow> bool" where
  "valid_index n i = (- int n \<le> i \<and> i < int n)"

definition position :: "nat \<Rightarrow> int \<Rightarrow> nat" where
  "position n i = nat (if i < 0 then int n + i else i)"

text \<open>
  \<^verbatim>\<open>a[:, 0, corr]\<close>: for every row, channel 0 and correlation \<open>corr\<close>.
  \<^verbatim>\<open>a[0, :, corr]\<close>: for row 0, every channel at correlation \<open>corr\<close>. numpy checks the
  indices against the shape, also when the array has no rows, and raises \<^verbatim>\<open>IndexError\<close>.
  A masked array is indexed in its data and in its mask.
\<close>

definition index_rows :: "'a ndarray \<Rightarrow> int \<Rightarrow> py_error + 'a list" where
  "index_rows a corr =
     (case shape a of (n0, n1, n2) \<Rightarrow>
        if 0 < n1 \<and> valid_index n2 corr
        then Inr (map (\<lambda>t. cell a t 0 (position n2 corr)) [0..<n0])
        else Inl IndexError)"

definition index_chans :: "'a ndarray \<Rightarrow> int \<Rightarrow> py_error + 'a list" where
  "index_chans a corr =
     (case shape a of (n0, n1, n2) \<Rightarrow>
        if 0 < n0 \<and> valid_index n2 corr
        then Inr (map (\<lambda>c. cell a 0 c (position n2 corr)) [0..<n1])
        else Inl IndexError)"

definition ma_index_rows :: "'a masked_array \<Rightarrow> int \<Rightarrow> py_error + 'a series" where
  "ma_index_rows m corr =
     and_then (index_rows (ma_data m) corr) (\<lambda>d.
     and_then (index_rows (ma_mask m) corr) (\<lambda>k. Inr (Masked d k)))"

definition ma_index_chans :: "'a masked_array \<Rightarrow> int \<Rightarrow> py_error + 'a series" where
  "ma_index_chans m corr =
     and_then (index_chans (ma_data m) corr) (\<lambda>d.
     and_then (index_chans (ma_mask m) corr) (\<lambda>k. Inr (Masked d k)))"

text \<open>
  \<^verbatim>\<open>np.ma.masked_array(data=..., mask=...)\<close>. A mask of the shape of the data is taken as it
  is. A mask of another shape with a single cell is repeated over the shape of the data
  (\<^verbatim>\<open>np.resize\<close>); one with as many cells as the data is laid out anew in the shape of the
  data, cell after cell in row-major order (\<^verbatim>\<open>np.reshape\<close>); any other mask raises
  \<^verbatim>\<open>MaskError\<close>.
\<close>

definition size_of :: "'a ndarray \<Rightarrow> nat" where
  "size_of a = (case shape a of (n0, n1, n2) \<Rightarrow> n0 * n1 * n2)"

definition flat :: "'a ndarray \<Rightarrow> nat \<Rightarrow> 'a" where
  "flat a i =
     (case shape a of (n0, n1, n2) \<Rightarrow> cell a (i div (n1 * n2)) ((i div n2) mod n1) (i mod n2))"

definition reshape :: "'a ndarray \<Rightarrow> nat \<times> nat \<times> nat \<Rightarrow> 'a ndarray" where
  "reshape a s =
     (case s of (s0, s1, s2) \<Rightarrow>
        \<lparr>shape = s, cell = (\<lambda>t c k. flat a ((t * s1 + c) * s2 + k))\<rparr>)"

definition masked_array :: "'a ndarray \<Rightarrow> bool ndarray \<Rightarrow> py_error + 'a masked_array" where
  "masked_array d m =
     (if shape m = shape d then Inr \<lparr>ma_data = d, ma_mask = m\<rparr>
      else if size_of m = 1
      then Inr \<lparr>ma_data = d, ma_mask = \<lparr>shape = shape d, cell = (\<lambda>t c k. flat m 0)\<rparr>\<rparr>
      else if size_of m = size_of d then Inr \<lparr>ma_data = d, ma_mask = reshape m (shape d)\<rparr>
      else Inl MaskError)"

text \<open>
  \<^verbatim>\<open>np.abs\<close>, \<^verbatim>\<open>np.real\<close> and \<^verbatim>\<open>np.imag\<close> read the value. \<^verbatim>\<open>np.angle(z)\<close> is
  \<^verbatim>\<open>arctan2(z.imag, z.real)\<close>; for a real array the imaginary part is the positive zero.
  \<open>arctan2\<close> takes each operand with its sign bit and follows IEEE 754: with \<open>y\<close> zero the
  result is zero when \<open>x\<close> is positive or the positive zero, and otherwise \<open>\<pi>\<close> with the sign
  of \<open>y\<close>; with \<open>x\<close> zero and \<open>y\<close> not, it is \<open>\<pi>/2\<close> with the sign of \<open>y\<close>.
\<close>

definition arctan2 :: "real \<Rightarrow> bool \<Rightarrow> real \<Rightarrow> bool \<Rightarrow> real" where
  "arctan2 y y_neg x x_neg =
     (if y = 0 then
        (if 0 < x \<or> (x = 0 \<and> \<not> x_neg) then 0 else if y_neg then - pi else pi)
      else if 0 < x then arctan (y / x)
      else if x < 0 then (if 0 < y then arctan (y / x) + pi else arctan (y / x) - pi)
      else if 0 < y then pi / 2
      else - pi / 2)"

definition np_abs :: "cfloat \<Rightarrow> real" where
  "np_abs z = cmod (c_value z)"

definition np_real :: "cfloat \<Rightarrow> real" where
  "np_real z = Re (c_value z)"

definition np_imag :: "cfloat \<Rightarrow> real" where
  "np_imag z = Im (c_value z)"

definition np_abs_real :: "rfloat \<Rightarrow> real" where
  "np_abs_real x = \<bar>r_value x\<bar>"

definition np_angle :: "cfloat \<Rightarrow> real" where
  "np_angle z = arctan2 (Im (c_value z)) (im_negzero z) (Re (c_value z)) (re_negzero z)"

definition np_angle_real :: "rfloat \<Rightarrow> real" where
  "np_angle_real x = arctan2 0 False (r_value x) (r_negzero x)"

definition np_rad2deg :: "real \<Rightarrow> real" where
  "np_rad2deg x = x * 180 / pi"

text \<open>
  \<^verbatim>\<open>np.unwrap(p)\<close> with the default period \<open>2\<pi>\<close> and the default jump bound \<open>\<pi>\<close>: the
  differences of neighbours are reduced to \<open>[-\<pi>, \<pi>]\<close>, a difference smaller than \<open>\<pi>\<close> in
  absolute value is left alone, and the corrections are summed up along the array.
\<close>

definition np_mod :: "real \<Rightarrow> real \<Rightarrow> real" where
  "np_mod x m = x - m * real_of_int \<lfloor>x / m\<rfloor>"

definition np_diff :: "real list \<Rightarrow> real list" where
  "np_diff p = map (\<lambda>(a, b). b - a) (zip p (tl p))"

definition ph_correct :: "real \<Rightarrow> real" where
  "ph_correct dd =
     (let ddmod = np_mod (dd + pi) (2 * pi) - pi;
          ddmod = (if ddmod = - pi \<and> 0 < dd then pi else ddmod)
      in if \<bar>dd\<bar> < pi then 0 else ddmod - dd)"

fun cumsum :: "real \<Rightarrow> real list \<Rightarrow> real list" where
  "cumsum acc [] = []"
| "cumsum acc (x # xs) = (acc + x) # cumsum (acc + x) xs"

definition np_unwrap :: "real list \<Rightarrow> real list" where
  "np_unwrap p =
     (case p of
        [] \<Rightarrow> []
      | x # xs \<Rightarrow> x # map (\<lambda>(a, c). a + c) (zip xs (cumsum 0 (map ph_correct (np_diff p)))))"

section \<open>The transforms \<^verbatim>\<open>data_prep_G\<close>, \<^verbatim>\<open>data_prep_B\<close>, \<^verbatim>\<open>data_prep_K\<close> (lines 160 to 260)\<close>

text \<open>
  The result is the tuple \<^verbatim>\<open>(y1, y1_err, y2, y2_err)\<close>; \<^verbatim>\<open>None\<close> for \<^verbatim>\<open>y2_err\<close> is \<open>None\<close>.
  Any \<^verbatim>\<open>doplot\<close> other than \<^verbatim>\<open>'ap'\<close> takes the second branch.
\<close>

definition data_prep_G ::
  "cfloat masked_array \<Rightarrow> rfloat masked_array \<Rightarrow> string \<Rightarrow> int
   \<Rightarrow> py_error + (real series \<times> real series \<times> real series \<times> real series option)" where
  "data_prep_G masked_data masked_data_err doplot corr =
     (if doplot = ''ap'' then
        and_then (ma_index_rows (ma_map np_abs masked_data) corr) (\<lambda>y1.
        and_then (ma_index_rows (ma_map np_abs_real masked_data_err) corr) (\<lambda>y1_err.
        and_then (ma_index_rows (ma_map np_angle masked_data) corr) (\<lambda>y2.
        let y2 = np_unwrap (series_data y2);
            y2 = map np_rad2deg y2
        in Inr (y1, y1_err, Plain y2, None))))
      else
        and_then (ma_index_rows (ma_map np_real masked_data) corr) (\<lambda>y1.
        and_then (ma_index_rows (ma_map np_abs_real masked_data_err) corr) (\<lambda>y1_err.
        and_then (ma_index_rows (ma_map np_imag masked_data) corr) (\<lambda>y2.
        Inr (y1, y1_err, y2, None)))))"

definition data_prep_B ::
  "cfloat masked_array \<Rightarrow> rfloat masked_array \<Rightarrow> string \<Rightarrow> int
   \<Rightarrow> py_error + (real series \<times> real series \<times> real series \<times> real series option)" where
  "data_prep_B masked_data masked_data_err doplot corr =
     (if doplot = ''ap'' then
        and_then (ma_index_chans (ma_map np_abs masked_data) corr) (\<lambda>y1.
        and_then (ma_index_chans (ma_map np_abs_real masked_data_err) corr) (\<lambda>y1_err.
        and_then (ma_index_chans masked_data corr) (\<lambda>sel.
        let y2 = series_data (series_map np_angle sel);
            y2 = map np_rad2deg (np_unwrap y2)
        in and_then (ma_index_chans masked_data_err corr) (\<lambda>sel_err.
        let y2_err = series_data (series_map np_angle_real sel_err);
            y2_err = map np_rad2deg (np_unwrap y2_err)
        in Inr (y1, y1_err, Plain y2, Some (Plain y2_err))))))
      else
        and_then (ma_index_chans (ma_map np_real masked_data) corr) (\<lambda>y1.
        and_then (ma_index_chans (ma_map np_abs_real masked_data_err) corr) (\<lambda>y1_err.
        and_then (ma_index_chans (ma_map np_imag masked_data) corr) (\<lambda>y2.
        Inr (y1, y1_err, y2, None)))))"

text \<open>
  \<^verbatim>\<open>int(not corr)\<close> is \<open>1\<close> for \<open>corr = 0\<close> and \<open>0\<close> for every other integer.
  \<^verbatim>\<open>np.array\<close> of the selected masked column returns its data without the mask.
\<close>

definition int_not :: "int \<Rightarrow> int" where
  "int_not corr = (if corr = 0 then 1 else 0)"

definition data_prep_K ::
  "real masked_array \<Rightarrow> 'e masked_array \<Rightarrow> int
   \<Rightarrow> py_error + (real series \<times> 'e masked_array \<times> real series \<times> 'e masked_array)" where
  "data_prep_K masked_data masked_data_err corr =
     and_then (ma_index_rows masked_data corr) (\<lambda>y1.
     let y1 = Plain (series_data y1);
         y1_err = masked_data_err
     in and_then (ma_index_rows masked_data (int_not corr)) (\<lambda>y2.
     let y2 = Plain (series_data y2);
         y2_err = masked_data_err
     in Inr (y1, y1_err, y2, y2_err)))"

section \<open>Notions used to state the properties of the transforms\<close>

text \<open>
  \<open>from_lists\<close> writes an array as the list of its rows, each the list of its channels, each
  the list of its correlations (all of the same lengths). \<open>column a corr\<close> is the cell at
  channel 0 and correlation \<open>corr\<close> of every row of \<open>a\<close>. \<open>has_index\<close> says that a shape has
  channel 0 and the correlation \<open>corr\<close>. In a masked array of numpy the mask has the shape
  of the data: \<open>wf_masked\<close>.
\<close>

definition from_lists :: "'a list list list \<Rightarrow> 'a ndarray" where
  "from_lists rs =
     \<lparr>shape = (case rs of
                 [] \<Rightarrow> (0, 0, 0)
               | r # _ \<Rightarrow> (length rs, length r, (case r of [] \<Rightarrow> 0 | c # _ \<Rightarrow> length c))),
      cell = (\<lambda>t c k. rs ! t ! c ! k)\<rparr>"

definition column :: "'a ndarray \<Rightarrow> int \<Rightarrow> 'a list" where
  "column a corr =
     map (\<lambda>t. cell a t 0 (position (snd (snd (shape a))) corr)) [0..<fst (shape a)]"

definition has_index :: "nat \<times> nat \<times> nat \<Rightarrow> int \<Rightarrow> bool" where
  "has_index s corr = (0 < fst (snd s) \<and> valid_index (snd (snd s)) corr)"

definition wf_masked :: "'a masked_array \<Rightarrow> bool" where
  "wf_masked m = (shape (ma_mask m) = shape (ma_data m))"




text \<open>Floats that are not the negative zero, for writing examples.\<close>

definition cplx :: "complex \<Rightarrow> cfloat" where
  "cplx z = \<lparr>c_value = z, re_negzero = False, im_negzero = False\<rparr>"

definition flt :: "real \<Rightarrow> rfloat" where
  "flt x = \<lparr>r_value = x, r_negzero = False\<rparr>"

section \<open>Runs of the script: effects and termination\<close>

text \<open>
  What a run does to the outside is a list of events, in order: lines printed, the output
  file set up, the table opened, columns read, per-antenna queries, exports. A run either
  ends early with an \<open>exit\<close> or gives a value. \<open>then_do\<close> sequences two parts of a run.
\<close>

datatype event =
    Print string
  | OutputFile string
  | OpenTable string
  | GetCol string
  | Query int int
  | SubGetCol string
  | SubClose
  | CloseTable
  | ExportSvgs string

type_synonym 'a run = "event list \<times> (exit + 'a)"

definition ret :: "'a \<Rightarrow> 'a run" where
  "ret x = ([], Inr x)"

definition emit :: "event \<Rightarrow> unit run" where
  "emit ev = ([ev], Inr ())"

definition stop :: "exit \<Rightarrow> 'a run" where
  "stop e = ([], Inl e)"

definition lift :: "py_error + 'a \<Rightarrow> 'a run" where
  "lift m = (case m of Inl e \<Rightarrow> ([], Inl (Raised e)) | Inr x \<Rightarrow> ([], Inr x))"

definition then_do :: "'a run \<Rightarrow> ('a \<Rightarrow> 'b run) \<Rightarrow> 'b run" where
  "then_do m f =
     (case m of
        (tr, Inl e) \<Rightarrow> (tr, Inl e)
      | (tr, Inr x) \<Rightarrow> (case f x of (tr', r) \<Rightarrow> (tr @ tr', r)))"

section \<open>Antenna selection (\<open>main\<close>, lines 367 to 381)\<close>

text \<open>
  The loop \<^verbatim>\<open>for ant in plotants\<close> runs over the list that its body shrinks. Python's list
  iterator keeps a position \<open>i\<close>: it yields \<^verbatim>\<open>plotants[i]\<close> while \<open>i\<close> is below the current
  length and then moves to \<open>i + 1\<close>. \<^verbatim>\<open>plotants.remove(ant)\<close> deletes the first element equal
  to \<^verbatim>\<open>ant\<close>. The events printed so far are carried along.
\<close>

function filter_loop :: "int list \<Rightarrow> nat \<Rightarrow> string list \<Rightarrow> event list \<Rightarrow> string list run" where
  "filter_loop ants i plotants tr =
     (if i < length plotants then
        (case py_int (plotants ! i) of
           Inl e \<Rightarrow> (tr, Inl (Raised e))
         | Inr v \<Rightarrow>
             if v \<notin> set ants
             then filter_loop ants (i + 1) (remove1 (plotants ! i) plotants)
                    (tr @ [Print (''Requested antenna ID '' @ plotants ! i @ '' not found'')])
             else filter_loop ants (i + 1) plotants tr)
      else (tr, Inr plotants))"
  by pat_completeness auto
termination
  by (relation "measure (\<lambda>(ants, i, plotants, tr). length plotants - i)")
    (auto simp: length_remove1)

text \<open>
  \<^verbatim>\<open>options.plotants\<close> is the list \<^verbatim>\<open>[-1]\<close> when the option is not given (\<open>None\<close>) and the
  string of the option otherwise; \<^verbatim>\<open>plotants[0]\<close> of an empty string raises \<^verbatim>\<open>IndexError\<close>,
  and the first character of a string never equals \<open>-1\<close>. \<^verbatim>\<open>np.array(plotants, dtype=int)\<close>
  converts each kept string to an integer of 64 bits: a string that is no integer raises
  \<^verbatim>\<open>ValueError\<close>, an integer outside the 64-bit range raises \<^verbatim>\<open>OverflowError\<close>.
\<close>

definition to_int64 :: "string \<Rightarrow> py_error + int" where
  "to_int64 s =
     and_then (py_int s) (\<lambda>v.
       if - (2 ^ 63) \<le> v \<and> v < 2 ^ 63 then Inr v else Inl OverflowError)"

definition select_antennas :: "string option \<Rightarrow> int list \<Rightarrow> int list run" where
  "select_antennas plotants ants =
     (case plotants of
        None \<Rightarrow> ret ants
      | Some s \<Rightarrow>
          if s = [] then stop (Raised IndexError)
          else then_do (filter_loop ants 0 (split (CHR '','') s) []) (\<lambda>plotants.
                 if length plotants = 0
                 then then_do (emit (Print ''No valid antennas have been requested''))
                        (\<lambda>_. stop (SysExit (Some (- 1))))
                 else lift (for_each to_int64 plotants)))"

section \<open>Axis ranges (\<open>main\<close>, lines 277 to 292, 314 to 319 and 578 to 606)\<close>

text \<open>
  The six range options have the default \<open>-1\<close>; \<open>main\<close> converts each with \<^verbatim>\<open>float\<close>.
  An option that the caller did not give is \<open>None\<close> here, one given with the number \<open>v\<close>
  is \<open>Some v\<close> (the text of the option is taken as already read as a number).
\<close>

record range_options =
  opt_t0 :: "real option"
  opt_t1 :: "real option"
  opt_yu0 :: "real option"
  opt_yu1 :: "real option"
  opt_yl0 :: "real option"
  opt_yl1 :: "real option"

record bounds =
  t0 :: real
  t1 :: real
  yu0 :: real
  yu1 :: real
  yl0 :: real
  yl1 :: real

definition option_float :: "real option \<Rightarrow> real" where
  "option_float v = (case v of None \<Rightarrow> - 1 | Some x \<Rightarrow> x)"

definition read_bounds :: "range_options \<Rightarrow> bounds" where
  "read_bounds c =
     \<lparr>t0 = option_float (opt_t0 c), t1 = option_float (opt_t1 c),
      yu0 = option_float (opt_yu0 c), yu1 = option_float (opt_yu1 c),
      yl0 = option_float (opt_yl0 c), yl1 = option_float (opt_yl1 c)\<rparr>"

text \<open>The running extents of the shared x axis, the upper panel and the lower panel.\<close>

record extents =
  xmin :: real
  xmax :: real
  ylmin :: real
  ylmax :: real
  yumin :: real
  yumax :: real

definition initial_extents :: extents where
  "initial_extents =
     \<lparr>xmin = 10 ^ 20, xmax = - (10 ^ 20), ylmin = 10 ^ 20, ylmax = - (10 ^ 20),
      yumin = 10 ^ 20, yumax = - (10 ^ 20)\<rparr>"

text \<open>Lines 578 to 606: padding, then the bounds that differ from \<open>-1\<close>.\<close>

definition finalize_ranges :: "extents \<Rightarrow> bounds \<Rightarrow> extents" where
  "finalize_ranges e b =
     (let xmin = xmin e - 400;
          xmax = xmax e + 400;
          yumin = (if yumin e < 0 then - 1 * (1.1 * \<bar>yumin e\<bar>) else yumin e * 0.9);
          yumax = yumax e * 1.1;
          ylmin = (if ylmin e < 0 then - 1 * (1.1 * \<bar>ylmin e\<bar>) else ylmin e * 0.9);
          ylmax = ylmax e * 1.1;
          xmin = (if t0 b \<noteq> - 1 then t0 b else xmin);
          xmax = (if t1 b \<noteq> - 1 then t1 b else xmax);
          ylmin = (if yl0 b \<noteq> - 1 then yl0 b else ylmin);
          ylmax = (if yl1 b \<noteq> - 1 then yl1 b else ylmax);
          yumin = (if yu0 b \<noteq> - 1 then yu0 b else yumin);
          yumax = (if yu1 b \<noteq> - 1 then yu1 b else yumax)
      in \<lparr>xmin = xmin, xmax = xmax, ylmin = ylmin, ylmax = ylmax,
          yumin = yumin, yumax = yumax\<rparr>)"

text \<open>
  For the statement of the padding rule: the bound that results from an option and the
  computed bound. An option given with a number other than \<open>-1\<close> wins; an option not given,
  or given as \<open>-1\<close>, leaves the computed bound.
\<close>

definition chosen :: "real option \<Rightarrow> real \<Rightarrow> real" where
  "chosen supplied computed =
     (case supplied of Some v \<Rightarrow> (if v = - 1 then computed else v) | None \<Rightarrow> computed)"

definition pad_min :: "real \<Rightarrow> real" where
  "pad_min m = (if m < 0 then m * 1.1 else m * 0.9)"

section \<open>The calibration table\<close>

text \<open>
  A table is its list of rows together with the information which of the two parameter
  columns it has (\<^verbatim>\<open>getcol\<close> of a missing column raises \<^verbatim>\<open>RuntimeError\<close>). Each row has an
  antenna, a field, a time, and array cells indexed by channel and correlation. Every row
  of an array column has the cell shape of the column (channels, correlations), which the
  table records: \<open>flag_cells\<close> for \<^verbatim>\<open>FLAG\<close>, \<open>paramerr_cells\<close> for \<^verbatim>\<open>PARAMERR\<close> and
  \<open>param_cells\<close> for \<^verbatim>\<open>CPARAM\<close> or \<^verbatim>\<open>FPARAM\<close>; a column whose rows differ in shape is not
  modelled. \<^verbatim>\<open>tt.query('ANTENNA1==a&&FIELD_ID==f')\<close> selects the rows of antenna \<open>a\<close> and
  field \<open>f\<close>.
\<close>

record row =
  ANTENNA1 :: int
  FIELD_ID :: int
  TIME :: real
  FLAG :: "nat \<Rightarrow> nat \<Rightarrow> bool"
  PARAMERR :: "nat \<Rightarrow> nat \<Rightarrow> rfloat"
  CPARAM :: "nat \<Rightarrow> nat \<Rightarrow> cfloat"
  FPARAM :: "nat \<Rightarrow> nat \<Rightarrow> real"

record cal_table =
  has_CPARAM :: bool
  has_FPARAM :: bool
  flag_cells :: "nat \<times> nat"
  paramerr_cells :: "nat \<times> nat"
  param_cells :: "nat \<times> nat"
  rows :: "row list"

definition query :: "cal_table \<Rightarrow> int \<Rightarrow> int \<Rightarrow> cal_table" where
  "query tt ant field =
     tt\<lparr>rows := filter (\<lambda>r. ANTENNA1 r = ant \<and> FIELD_ID r = field) (rows tt)\<rparr>"

definition np_unique :: "int list \<Rightarrow> int list" where
  "np_unique xs = sort (remdups xs)"

definition subtab_getcol :: "bool \<Rightarrow> (row \<Rightarrow> 'a) \<Rightarrow> string \<Rightarrow> cal_table \<Rightarrow> 'a list run" where
  "subtab_getcol present col name subtab =
     then_do (emit (SubGetCol name)) (\<lambda>_.
       if present then ret (map col (rows subtab)) else stop (Raised RuntimeError))"

text \<open>\<^verbatim>\<open>getcol\<close> of an array column: one cell of the column's shape for every row.\<close>

definition subtab_getarr ::
  "bool \<Rightarrow> nat \<times> nat \<Rightarrow> (row \<Rightarrow> nat \<Rightarrow> nat \<Rightarrow> 'a) \<Rightarrow> string \<Rightarrow> cal_table
   \<Rightarrow> 'a ndarray run" where
  "subtab_getarr present cells col name subtab =
     then_do (emit (SubGetCol name)) (\<lambda>_.
       if present
       then ret \<lparr>shape = (length (rows subtab), fst cells, snd cells),
                 cell = (\<lambda>t. col (rows subtab ! t))\<rparr>
       else stop (Raised RuntimeError))"

section \<open>Minimum and maximum of a series (\<^verbatim>\<open>np.min\<close>, \<^verbatim>\<open>np.max\<close>)\<close>

text \<open>
  An empty array has no minimum (\<^verbatim>\<open>ValueError\<close>). The minimum of a masked array is taken
  over its unmasked values; when all values are masked the result is the masked constant,
  which compares as false with every number: \<open>None\<close> here.
\<close>

fun unmasked :: "'a series \<Rightarrow> 'a list" where
  "unmasked (Plain d) = d"
| "unmasked (Masked d m) = map fst (filter (\<lambda>(v, k). \<not> k) (zip d m))"

definition reduce :: "(real \<Rightarrow> real \<Rightarrow> real) \<Rightarrow> real series \<Rightarrow> py_error + real option" where
  "reduce f s =
     (if series_data s = [] then Inl ValueError
      else (case unmasked s of [] \<Rightarrow> Inr None | v # vs \<Rightarrow> Inr (Some (fold f vs v))))"

definition np_min :: "real series \<Rightarrow> py_error + real option" where
  "np_min s = reduce min s"

definition np_max :: "real series \<Rightarrow> py_error + real option" where
  "np_max s = reduce max s"

definition lower :: "real option \<Rightarrow> real \<Rightarrow> real" where
  "lower m cur = (case m of Some v \<Rightarrow> (if v < cur then v else cur) | None \<Rightarrow> cur)"

definition raise_to :: "real option \<Rightarrow> real \<Rightarrow> real" where
  "raise_to m cur = (case m of Some v \<Rightarrow> (if v > cur then v else cur) | None \<Rightarrow> cur)"

text \<open>
  Lines 564 to 575: the extents follow \<^verbatim>\<open>times\<close> (written \<open>tms\<close> below), \<^verbatim>\<open>y1\<close> and
  \<^verbatim>\<open>y2\<close>.
\<close>

definition update_extents ::
  "extents \<Rightarrow> real list \<Rightarrow> real series \<Rightarrow> real series \<Rightarrow> py_error + extents" where
  "update_extents e tms y1 y2 =
     and_then (np_min (Plain tms)) (\<lambda>tmin.
     and_then (np_max (Plain tms)) (\<lambda>tmax.
     and_then (np_min y1) (\<lambda>y1min.
     and_then (np_max y1) (\<lambda>y1max.
     and_then (np_min y2) (\<lambda>y2min.
     and_then (np_max y2) (\<lambda>y2max.
     Inr \<lparr>xmin = lower tmin (xmin e), xmax = raise_to tmax (xmax e),
          ylmin = lower y2min (ylmin e), ylmax = raise_to y2max (ylmax e),
          yumin = lower y1min (yumin e), yumax = raise_to y1max (yumax e)\<rparr>))))))"

section \<open>Dispatch on mode and table kind (\<open>main\<close>, lines 454 to 541)\<close>

text \<open>
  What the dispatch hands to the plotting calls: the series, the times used for the
  extents, and the axis labels.
\<close>

record prepared =
  p_times :: "real list"
  p_x :: "real list"
  p_y1 :: "real series"
  p_y2 :: "real series"
  p_xlabel :: string
  p_ylabel1 :: string
  p_ylabel2 :: string

definition prepare_G ::
  "string \<Rightarrow> cal_table \<Rightarrow> real list \<Rightarrow> bool ndarray \<Rightarrow> rfloat ndarray \<Rightarrow> int
   \<Rightarrow> (real list \<times> real list \<times> real series \<times> real series \<times> string) run" where
  "prepare_G doplot subtab tms flagcol paramerr corr =
     then_do (subtab_getarr (has_CPARAM subtab) (param_cells subtab) CPARAM ''CPARAM'' subtab) (\<lambda>cparam.
     then_do (lift (masked_array cparam flagcol)) (\<lambda>masked_data.
     then_do (lift (masked_array paramerr flagcol)) (\<lambda>masked_data_err.
     then_do (lift (data_prep_G masked_data masked_data_err doplot corr))
       (\<lambda>(y1, y1_err, y2, y2_err).
     ret (tms, tms, y1, y2, ''Time [s]'')))))"

definition prepare_B ::
  "string \<Rightarrow> cal_table \<Rightarrow> real list \<Rightarrow> bool ndarray \<Rightarrow> rfloat ndarray \<Rightarrow> int
   \<Rightarrow> (real list \<times> real list \<times> real series \<times> real series \<times> string) run" where
  "prepare_B doplot subtab tms flagcol paramerr corr =
     then_do (subtab_getarr (has_CPARAM subtab) (param_cells subtab) CPARAM ''CPARAM'' subtab) (\<lambda>cparam.
     let nchan = fst (snd (shape cparam));
         chans = map real [0..<nchan]
     in then_do (lift (masked_array cparam flagcol)) (\<lambda>masked_data.
     then_do (lift (masked_array paramerr flagcol)) (\<lambda>masked_data_err.
     then_do (lift (data_prep_B masked_data masked_data_err doplot corr))
       (\<lambda>(y1, y1_err, y2, y2_err).
     ret (tms, chans, y1, y2, ''Channel'')))))"

definition prepare_K ::
  "cal_table \<Rightarrow> real list \<Rightarrow> bool ndarray \<Rightarrow> rfloat ndarray \<Rightarrow> int
   \<Rightarrow> (real list \<times> real list \<times> real series \<times> real series \<times> string) run" where
  "prepare_K subtab tms flagcol paramerr corr =
     then_do (subtab_getcol True ANTENNA1 ''ANTENNA1'' subtab) (\<lambda>antenna.
     then_do (subtab_getarr (has_FPARAM subtab) (param_cells subtab) FPARAM ''FPARAM'' subtab) (\<lambda>fparam.
     then_do (lift (masked_array fparam flagcol)) (\<lambda>masked_data.
     then_do (lift (masked_array paramerr flagcol)) (\<lambda>masked_data_err.
     then_do (lift (data_prep_K masked_data masked_data_err corr))
       (\<lambda>(y1, y1_err, y2, y2_err).
     ret (tms, map real_of_int antenna, y1, y2, ''Antenna''))))))"

text \<open>
  In mode \<^verbatim>\<open>'ri'\<close> the gain branch reads \<^verbatim>\<open>TIME\<close> again and refers it to its first value.
\<close>

definition reread_times :: "cal_table \<Rightarrow> real list run" where
  "reread_times subtab =
     then_do (subtab_getcol True TIME ''TIME'' subtab) (\<lambda>tms.
     then_do (lift (py_index tms 0)) (\<lambda>first.
     ret (map (\<lambda>t. t - first) tms)))"

text \<open>
  Every test of the \<^verbatim>\<open>if\<close>/\<^verbatim>\<open>elif\<close> chain calls \<^verbatim>\<open>determine_table(mytab)\<close> again; the
  tests are evaluated in order and the first \<^verbatim>\<open>in\<close> on an integer raises. When no test
  holds, nothing is assigned and the call of \<^verbatim>\<open>make_plots\<close> that follows reads the unbound
  variable \<^verbatim>\<open>source\<close> (in a later iteration it would read the previous one; the tests do
  not depend on the iteration, so that case does not arise). The same holds for a mode that
  is neither \<^verbatim>\<open>'ap'\<close> nor \<^verbatim>\<open>'ri'\<close>.
\<close>

definition invalid_table :: "'a run" where
  "invalid_table = then_do (emit (Print ''Invalid table'')) (\<lambda>_. stop (SysExit (Some (- 1))))"

definition dispatch ::
  "string \<Rightarrow> string \<Rightarrow> cal_table \<Rightarrow> real list \<Rightarrow> bool ndarray \<Rightarrow> rfloat ndarray \<Rightarrow> int
   \<Rightarrow> prepared run" where
  "dispatch doplot mytab subtab tms flagcol paramerr corr =
     (if doplot = ''ap'' then
        then_do
          (then_do (lift (py_in ''.G'' (determine_table mytab))) (\<lambda>is_G.
           if is_G then prepare_G doplot subtab tms flagcol paramerr corr
           else then_do (lift (py_in ''.B'' (determine_table mytab))) (\<lambda>is_B.
           if is_B then prepare_B doplot subtab tms flagcol paramerr corr
           else then_do (lift (py_in ''.K'' (determine_table mytab))) (\<lambda>is_K.
           if is_K then prepare_K subtab tms flagcol paramerr corr
           else if determine_table mytab = PyInt (- 1) then invalid_table
           else stop (Raised UnboundLocalError)))))
          (\<lambda>(tms, x, y1, y2, xlabel).
             ret \<lparr>p_times = tms, p_x = x, p_y1 = y1, p_y2 = y2, p_xlabel = xlabel,
                  p_ylabel1 = ''Amplitude'', p_ylabel2 = ''Phase [Deg]''\<rparr>)
      else if doplot = ''ri'' then
        then_do
          (then_do (lift (py_in ''.G'' (determine_table mytab))) (\<lambda>is_G.
           if is_G then
             then_do (subtab_getarr (has_CPARAM subtab) (param_cells subtab) CPARAM ''CPARAM'' subtab) (\<lambda>cparam.
             then_do (reread_times subtab) (\<lambda>tms.
             then_do (lift (masked_array cparam flagcol)) (\<lambda>masked_data.
             then_do (lift (masked_array paramerr flagcol)) (\<lambda>masked_data_err.
             then_do (lift (data_prep_G masked_data masked_data_err doplot corr))
               (\<lambda>(y1, y1_err, y2, y2_err).
             ret (tms, tms, y1, y2, ''Time [s]''))))))
           else then_do (lift (py_in ''.B'' (determine_table mytab))) (\<lambda>is_B.
           if is_B then prepare_B doplot subtab tms flagcol paramerr corr
           else then_do (lift (py_in ''.K'' (determine_table mytab))) (\<lambda>is_K.
           if is_K then
             then_do (emit (Print ''No complex values to plot'')) (\<lambda>_. stop (SysExit None))
           else if determine_table mytab = PyInt (- 1) then invalid_table
           else stop (Raised UnboundLocalError)))))
          (\<lambda>(tms, x, y1, y2, xlabel).
             ret \<lparr>p_times = tms, p_x = x, p_y1 = y1, p_y2 = y2, p_xlabel = xlabel,
                  p_ylabel1 = ''Real'', p_ylabel2 = ''Imaginary''\<rparr>)
      else stop (Raised UnboundLocalError))"

section \<open>One antenna (\<open>main\<close>, lines 421 to 575)\<close>

text \<open>
  A legend item is the pair of a label and a glyph; of the glyph only the \<^verbatim>\<open>visible\<close> flag
  matters here. \<^verbatim>\<open>make_plots\<close> creates the data glyphs visible (the default of the plotting
  library) and the error bars of the upper panel hidden; it is called without \<^verbatim>\<open>y2_err\<close>,
  so the lower panel gets no error glyph (\<^verbatim>\<open>None\<close>) and its legend item is a label only.
\<close>

record item =
  label :: string
  visible :: bool

record plot_state =
  legend_items_ax1 :: "item list"
  legend_items_ax2 :: "item list"
  legend_items_err_ax1 :: "item list"
  legend_items_err_ax2 :: "string list"
  ext :: extents
  labels :: "(string \<times> string \<times> string) option"

definition initial_state :: plot_state where
  "initial_state =
     \<lparr>legend_items_ax1 = [], legend_items_ax2 = [], legend_items_err_ax1 = [],
      legend_items_err_ax2 = [], ext = initial_extents, labels = None\<rparr>"

text \<open>
  \<^verbatim>\<open>antnames\<close> is \<open>None\<close> when no measurement set was given (the empty string in the
  source), otherwise the list of names, indexed by the antenna.
\<close>

definition antlabel :: "string list option \<Rightarrow> int \<Rightarrow> string run" where
  "antlabel antnames ant =
     (case antnames of None \<Rightarrow> ret (py_str ant) | Some names \<Rightarrow> lift (py_index names ant))"

definition plot_antenna ::
  "string \<Rightarrow> int \<Rightarrow> int \<Rightarrow> string \<Rightarrow> cal_table \<Rightarrow> string list option
   \<Rightarrow> plot_state \<Rightarrow> int \<Rightarrow> plot_state run" where
  "plot_antenna doplot field corr mytab tt antnames st ant =
     (let legend = ''A'' @ py_str ant;
          legend_err = ''E'' @ py_str ant
      in then_do (emit (Query ant field)) (\<lambda>_.
         let subtab = query tt ant field
         in then_do (subtab_getcol True TIME ''TIME'' subtab) (\<lambda>tms.
            then_do (lift (py_index tms 0)) (\<lambda>first.
            let tms = map (\<lambda>t. t - first) tms
            in then_do (subtab_getarr True (flag_cells subtab) FLAG ''FLAG'' subtab) (\<lambda>flagcol.
               then_do (subtab_getarr True (paramerr_cells subtab) PARAMERR ''PARAMERR'' subtab) (\<lambda>paramerr.
               then_do (dispatch doplot mytab subtab tms flagcol paramerr corr) (\<lambda>p.
               let shown = \<not> ant > 0;
                   st = st\<lparr>legend_items_ax1 :=
                             legend_items_ax1 st @ [\<lparr>label = legend, visible = shown\<rparr>],
                           legend_items_ax2 :=
                             legend_items_ax2 st @ [\<lparr>label = legend, visible = shown\<rparr>],
                           legend_items_err_ax1 :=
                             legend_items_err_ax1 st @ [\<lparr>label = legend_err, visible = False\<rparr>],
                           legend_items_err_ax2 := legend_items_err_ax2 st @ [legend_err],
                           labels := Some (p_xlabel p, p_ylabel1 p, p_ylabel2 p)\<rparr>
               in then_do (emit SubClose) (\<lambda>_.
                  then_do (antlabel antnames ant) (\<lambda>_.
                  then_do (lift (update_extents (ext st) (p_times p) (p_y1 p) (p_y2 p)))
                    (\<lambda>e. ret (st\<lparr>ext := e\<rparr>)))))))))))"

text \<open>The loop \<^verbatim>\<open>for ant in plotants\<close>: the first iteration that ends the run ends the loop.\<close>

fun antenna_loop ::
  "string \<Rightarrow> int \<Rightarrow> int \<Rightarrow> string \<Rightarrow> cal_table \<Rightarrow> string list option
   \<Rightarrow> plot_state \<Rightarrow> int list \<Rightarrow> plot_state run" where
  "antenna_loop doplot field corr mytab tt antnames st [] = ret st"
| "antenna_loop doplot field corr mytab tt antnames st (ant # plotants) =
     then_do (plot_antenna doplot field corr mytab tt antnames st ant)
       (\<lambda>st. antenna_loop doplot field corr mytab tt antnames st plotants)"

section \<open>Legend batching (\<open>main\<close>, lines 621 to 648)\<close>

text \<open>
  \<^verbatim>\<open>BATCH_SIZE = 16\<close> and
  \<^verbatim>\<open>num_legend_objs = int(np.ceil(len(plotants) / float(BATCH_SIZE)))\<close>.
\<close>

definition BATCH_SIZE :: nat where
  "BATCH_SIZE = 16"

definition num_legend_objs :: "nat \<Rightarrow> nat" where
  "num_legend_objs n = nat \<lceil>real n / real BATCH_SIZE\<rceil>"

text \<open>
  Python slices \<^verbatim>\<open>xs[j:k]\<close> and \<^verbatim>\<open>xs[j:]\<close> for non-negative bounds: both clamp at the
  end of the list, neither raises.
\<close>

definition slice :: "'a list \<Rightarrow> nat \<Rightarrow> nat \<Rightarrow> 'a list" where
  "slice xs j k = take (k - j) (drop j xs)"

definition slice_from :: "'a list \<Rightarrow> nat \<Rightarrow> 'a list" where
  "slice_from xs j = drop j xs"

text \<open>
  The loop \<^verbatim>\<open>for i in range(num_legend_objs)\<close> with the running offset \<^verbatim>\<open>j\<close>. The
  branch \<^verbatim>\<open>if i == num_legend_objs\<close> is kept as the source has it. The four
  lists (data and error handles of both panels) go through the same slices, so the loop
  is modelled once, for any list of legend items. \<^verbatim>\<open>num_legend_objs\<close> is computed
  from \<^verbatim>\<open>len(plotants)\<close>, the first argument of \<open>make_batches\<close>.
\<close>

fun batch_loop :: "'a list \<Rightarrow> nat \<Rightarrow> nat list \<Rightarrow> nat \<Rightarrow> 'a list list \<Rightarrow> 'a list list" where
  "batch_loop items num [] j batches = batches"
| "batch_loop items num (i # rest) j batches =
     batch_loop items num rest (j + BATCH_SIZE)
       (if i = num then batches @ [slice_from items j]
        else batches @ [slice items j (j + BATCH_SIZE)])"

definition make_batches :: "nat \<Rightarrow> 'a list \<Rightarrow> 'a list list" where
  "make_batches n items =
     batch_loop items (num_legend_objs n) [0..<num_legend_objs n] 0 []"

section \<open>The widgets and their callbacks (\<open>main\<close>, lines 684 to 840)\<close>

text \<open>
  The state that the two callbacks read and write: the select-all toggle (\<^verbatim>\<open>ant_select\<close>,
  its \<^verbatim>\<open>active\<close> flag and its label), the checkbox group (\<^verbatim>\<open>batch_select\<close>, the list of
  active indices) and the \<^verbatim>\<open>visible\<close> flag of the data glyph of every antenna on both
  panels, by rank in the selection. The batches passed to the callbacks hold the same glyph
  objects as the flat lists, so a batch is the list of the ranks of its glyphs:
  \<open>make_batches n [0..<n]\<close> for \<open>n\<close> antennas.
\<close>

record view =
  antsel_active :: bool
  antsel_label :: string
  batchsel_active :: "nat list"
  glyph1 :: "bool list"
  glyph2 :: "bool list"

text \<open>
  A callback that reads a property of \<^verbatim>\<open>undefined\<close> throws a \<^verbatim>\<open>TypeError\<close> and stops; what it
  has written so far stays written. The result of a callback is the state it leaves and
  whether it threw.
\<close>

datatype js_error = JsTypeError

type_synonym js_result = "js_error option \<times> view"

definition js_then :: "js_result \<Rightarrow> (view \<Rightarrow> js_result) \<Rightarrow> js_result" where
  "js_then r f = (case r of (Some e, v) \<Rightarrow> (Some e, v) | (None, v) \<Rightarrow> f v)"

text \<open>
  \<^verbatim>\<open>ant_select.callback\<close> (lines 706 to 733). \<^verbatim>\<open>this.active\<close> is the state of the toggle
  after the click. Both loops run over \<^verbatim>\<open>glyph1.length\<close>; the two lists have one entry per
  antenna.
\<close>

definition ant_select_callback :: "view \<Rightarrow> js_result" where
  "ant_select_callback v =
     (if antsel_active v = False then
        (None, v\<lparr>antsel_label := ''Select all Antennas'',
                 glyph1 := map (\<lambda>_. False) (glyph1 v),
                 glyph2 := map (\<lambda>_. False) (glyph2 v),
                 batchsel_active := []\<rparr>)
      else
        (None, v\<lparr>antsel_label := ''Deselect all Antennas'',
                 glyph1 := map (\<lambda>_. True) (glyph1 v),
                 glyph2 := map (\<lambda>_. True) (glyph2 v),
                 batchsel_active := [0, 1, 2, 3]\<rparr>))"

text \<open>
  \<^verbatim>\<open>batch_select.callback\<close> (lines 771 to 840). Each of the four blocks, for the batch
  numbers 0 to 3, runs \<open>i\<close> from 0 to \<^verbatim>\<open>bax1[0].length\<close> (\<open>j\<close> stays 0) and writes
  \<^verbatim>\<open>bax1[k][i][1][0].visible\<close> and \<^verbatim>\<open>bax2[k][i][1][0].visible\<close>. When batch \<open>k\<close> does not
  exist, or has no item \<open>i\<close>, \<^verbatim>\<open>bax1[k][i]\<close> is \<^verbatim>\<open>undefined\<close> and the access throws.
\<close>

fun set_items :: "nat list list \<Rightarrow> nat \<Rightarrow> bool \<Rightarrow> nat list \<Rightarrow> view \<Rightarrow> js_result" where
  "set_items bax k b [] v = (None, v)"
| "set_items bax k b (i # rest) v =
     (if k < length bax \<and> i < length (bax ! k)
      then set_items bax k b rest
             (v\<lparr>glyph1 := (glyph1 v)[bax ! k ! i := b], glyph2 := (glyph2 v)[bax ! k ! i := b]\<rparr>)
      else (Some JsTypeError, v))"

definition batch_block :: "nat list list \<Rightarrow> nat \<Rightarrow> view \<Rightarrow> js_result" where
  "batch_block bax k v =
     (case bax of
        [] \<Rightarrow> (Some JsTypeError, v)
      | first # _ \<Rightarrow> set_items bax k (k \<in> set (batchsel_active v)) [0..<length first] v)"

definition sync_toggle :: "view \<Rightarrow> js_result" where
  "sync_toggle v =
     (if length (batchsel_active v) = 4
      then (None, v\<lparr>antsel_active := True, antsel_label := ''Deselect all Antennas''\<rparr>)
      else if length (batchsel_active v) = 0
      then (None, v\<lparr>antsel_active := False, antsel_label := ''Select all Antennas''\<rparr>)
      else (None, v))"

definition batch_select_callback :: "nat list list \<Rightarrow> view \<Rightarrow> js_result" where
  "batch_select_callback bax v =
     js_then (batch_block bax 0 v) (\<lambda>v.
     js_then (batch_block bax 1 v) (\<lambda>v.
     js_then (batch_block bax 2 v) (\<lambda>v.
     js_then (batch_block bax 3 v) sync_toggle)))"

text \<open>
  The events. A click on the toggle flips \<^verbatim>\<open>active\<close> and runs its callback. A click on
  checkbox \<open>b\<close> flips that box; the group then sets \<^verbatim>\<open>active\<close> to the indices of the
  checked boxes, in order, and runs its callback. (This is the behaviour of the widget
  library; a box is drawn checked when its index is in \<^verbatim>\<open>active\<close>.) There is one checkbox for
  each batch. A callback that throws leaves the state as it is at that point.
\<close>

datatype ui_event = ClickSelectAll | ClickBatch nat

definition handle_event :: "nat \<Rightarrow> view \<Rightarrow> ui_event \<Rightarrow> js_result" where
  "handle_event n v ev =
     (case ev of
        ClickSelectAll \<Rightarrow> ant_select_callback (v\<lparr>antsel_active := \<not> antsel_active v\<rparr>)
      | ClickBatch b \<Rightarrow>
          batch_select_callback (make_batches n [0..<n])
            (v\<lparr>batchsel_active :=
                 filter (\<lambda>i. (i \<in> set (batchsel_active v)) \<noteq> (i = b))
                   [0..<num_legend_objs n]\<rparr>))"

fun handle_events :: "nat \<Rightarrow> view \<Rightarrow> ui_event list \<Rightarrow> view" where
  "handle_events n v [] = v"
| "handle_events n v (ev # evs) = handle_events n (snd (handle_event n v ev)) evs"

text \<open>
  The widgets as created: the toggle is off, no box is checked. The glyph flags are those
  of the legend items.
\<close>

definition initial_view :: "bool list \<Rightarrow> bool list \<Rightarrow> view" where
  "initial_view g1 g2 =
     \<lparr>antsel_active = False, antsel_label = ''Select All Antennas'', batchsel_active = [],
      glyph1 = g1, glyph2 = g2\<rparr>"

text \<open>
  The invariant of the specification: the toggle shows the conjunction of all checkboxes.
\<close>

definition all_batches_active :: "nat \<Rightarrow> view \<Rightarrow> bool" where
  "all_batches_active n v = list_all (\<lambda>b. b \<in> set (batchsel_active v)) [0..<num_legend_objs n]"

definition toggle_consistent :: "nat \<Rightarrow> view \<Rightarrow> bool" where
  "toggle_consistent n v = (antsel_active v = all_batches_active n v)"

section \<open>The whole run: \<open>main\<close> (lines 305 to 922)\<close>

text \<open>
  The options as \<open>main\<close> has them after conversion (the numeric options are taken as
  already read as numbers), and the outside world: the table found at a path, the antenna
  names of a measurement set, and whether the plotting library knows a colour map (an
  unknown name raises \<^verbatim>\<open>ValueError\<close>). A table that can not be opened raises
  \<^verbatim>\<open>RuntimeError\<close>.
\<close>

record config =
  cfg_args :: "string list"
  cfg_field :: int
  cfg_doplot :: string
  cfg_plotants :: "string option"
  cfg_corr :: int
  cfg_ranges :: range_options
  cfg_mycmap :: string
  cfg_myms :: string
  cfg_pngname :: string

record world =
  table_at :: "string \<Rightarrow> cal_table option"
  antenna_names :: "string \<Rightarrow> string list option"
  colormap_known :: "string \<Rightarrow> bool"

definition fatal :: "string \<Rightarrow> 'a run" where
  "fatal msg = then_do (emit (Print msg)) (\<lambda>_. stop (SysExit (Some (- 1))))"

text \<open>Lines 329 to 388: arguments, output name, mode, table, field, antennas, names.\<close>

definition main_setup ::
  "config \<Rightarrow> world \<Rightarrow> (string \<times> string \<times> cal_table \<times> int list \<times> string list option) run" where
  "main_setup cfg w =
     (if length (cfg_args cfg) \<noteq> 1 then fatal ''Please specify a gain table to plot.''
      else
        let mytab = rstrip (CHR ''/'') (cfg_args cfg ! 0)
        in then_do
             (if cfg_pngname cfg = []
              then let pngname = ''plot_'' @ mytab @ ''_corr'' @ py_str (cfg_corr cfg) @ ''_''
                                 @ cfg_doplot cfg @ ''_field'' @ py_str (cfg_field cfg)
                   in then_do (emit (OutputFile (pngname @ ''.html''))) (\<lambda>_. ret pngname)
              else ret (cfg_pngname cfg)) (\<lambda>pngname.
           if cfg_doplot cfg \<notin> set [''ap'', ''ri'']
           then fatal ''Plot selection must be either ap (amp and phase) or ri (real and imag)''
           else
             then_do (emit (OpenTable mytab)) (\<lambda>_.
             case table_at w mytab of
               None \<Rightarrow> stop (Raised RuntimeError)
             | Some tt \<Rightarrow>
                 then_do (emit (GetCol ''ANTENNA1'')) (\<lambda>_.
                 let ants = np_unique (map ANTENNA1 (rows tt))
                 in then_do (emit (GetCol ''FIELD_ID'')) (\<lambda>_.
                 let fields = np_unique (map FIELD_ID (rows tt))
                 in then_do (emit (GetCol ''FLAG'')) (\<lambda>_.
                 if \<not> colormap_known w (cfg_mycmap cfg) then stop (Raised ValueError)
                 else if cfg_field cfg \<notin> set fields
                 then fatal (''Field ID '' @ py_str (cfg_field cfg) @ '' not found'')
                 else
                   then_do (select_antennas (cfg_plotants cfg) ants) (\<lambda>plotants.
                   then_do
                     (if cfg_myms cfg \<noteq> []
                      then then_do
                             (emit (OpenTable (rstrip (CHR ''/'') (cfg_myms cfg) @ ''/ANTENNA'')))
                             (\<lambda>_.
                           case antenna_names w (cfg_myms cfg) of
                             None \<Rightarrow> stop (Raised RuntimeError)
                           | Some names \<Rightarrow>
                               then_do (emit (GetCol ''NAME'')) (\<lambda>_. ret (Some names)))
                      else ret None) (\<lambda>antnames.
                   ret (mytab, pngname, tt, plotants, antnames)))))))))"

text \<open>
  Lines 578 to 922: ranges, titles, batches, widgets, and the export. The titles read the
  labels that the loop assigned (unbound when the loop did not run). The batches are slices
  of the lists of legend items and hold the same glyph objects; the final loop, which runs
  whenever \<^verbatim>\<open>pngname\<close> is not empty, makes every data glyph visible, and the batches below
  are taken from the lists after that loop. \<^verbatim>\<open>"%s_%s".format(...)\<close> has no replacement field
  and is the string \<^verbatim>\<open>%s_%s\<close> for both exports. \<^verbatim>\<open>show(layout)\<close> is commented out, so the
  two exports are the only rendering of a run. \<open>r_view\<close> is the state of the widgets when
  the run ends: they are as created (lines 685 to 700), and the glyph flags are those of the
  legend items after the final loop.
\<close>

record rendered =
  r_items_ax1 :: "item list"
  r_items_ax2 :: "item list"
  r_items_err_ax1 :: "item list"
  r_items_err_ax2 :: "string list"
  r_batches_ax1 :: "item list list"
  r_batches_ax2 :: "item list list"
  r_batches_ax1_err :: "item list list"
  r_batches_ax2_err :: "string list list"
  r_ranges :: extents
  r_titles :: "string \<times> string"
  r_ant_labs :: "string list"
  r_view :: view

definition ant_labs :: "nat \<Rightarrow> string list" where
  "ant_labs num =
     map (\<lambda>i. ''A'' @ py_str (int (i * BATCH_SIZE)) @ '' - A''
               @ py_str (int (BATCH_SIZE - 1 + i * BATCH_SIZE))) [0..<num]"

definition show_all :: "item list \<Rightarrow> item list" where
  "show_all items = map (\<lambda>it. it\<lparr>visible := True\<rparr>) items"

definition main_finish :: "config \<Rightarrow> string \<Rightarrow> nat \<Rightarrow> plot_state \<Rightarrow> rendered run" where
  "main_finish cfg pngname n st =
     (let ranges = finalize_ranges (ext st) (read_bounds (cfg_ranges cfg))
      in then_do (emit CloseTable) (\<lambda>_.
         case labels st of
           None \<Rightarrow> stop (Raised UnboundLocalError)
         | Some (xlabel, ylabel1, ylabel2) \<Rightarrow>
             let titles = (ylabel1 @ '' vs '' @ xlabel, ylabel2 @ '' vs '' @ xlabel)
             in then_do
                  (if pngname \<noteq> []
                   then let items1 = show_all (legend_items_ax1 st);
                            items2 = show_all (legend_items_ax2 st)
                        in then_do (emit (ExportSvgs ''%s_%s'')) (\<lambda>_.
                           then_do (emit (ExportSvgs ''%s_%s'')) (\<lambda>_.
                           ret (items1, items2)))
                   else ret (legend_items_ax1 st, legend_items_ax2 st)) (\<lambda>(items1, items2).
                let view0 = initial_view (map visible items1) (map visible items2)
                in then_do (emit (Print (''Rendered: '' @ pngname))) (\<lambda>_.
                ret \<lparr>r_items_ax1 = items1, r_items_ax2 = items2,
                     r_items_err_ax1 = legend_items_err_ax1 st,
                     r_items_err_ax2 = legend_items_err_ax2 st,
                     r_batches_ax1 = make_batches n items1,
                     r_batches_ax2 = make_batches n items2,
                     r_batches_ax1_err = make_batches n (legend_items_err_ax1 st),
                     r_batches_ax2_err = make_batches n (legend_items_err_ax2 st),
                     r_ranges = ranges, r_titles = titles,
                     r_ant_labs = ant_labs (num_legend_objs n),
                     r_view = view0\<rparr>))))"

definition main :: "config \<Rightarrow> world \<Rightarrow> rendered run" where
  "main cfg w =
     then_do (main_setup cfg w) (\<lambda>(mytab, pngname, tt, plotants, antnames).
     then_do (antenna_loop (cfg_doplot cfg) (cfg_field cfg) (cfg_corr cfg) mytab tt antnames
                initial_state plotants) (\<lambda>st.
     main_finish cfg pngname (length plotants) st))"

section \<open>Notions used to state the properties of a run\<close>

text \<open>
  \<open>quiet bad r\<close>: no event of the run \<open>r\<close> is a \<open>bad\<close> one. \<open>is_export\<close> and \<open>is_query\<close>
  recognise the export of an image and a per-antenna query.
\<close>

definition quiet :: "(event \<Rightarrow> bool) \<Rightarrow> 'a run \<Rightarrow> bool" where
  "quiet bad r = list_all (\<lambda>e. \<not> bad e) (fst r)"

fun is_export :: "event \<Rightarrow> bool" where
  "is_export (ExportSvgs name) = True"
| "is_export e = False"

fun is_query :: "event \<Rightarrow> bool" where
  "is_query (Query ant field) = True"
| "is_query e = False"

section \<open>Concrete inputs for the examples\<close>

text \<open>
  A delay-type table with one row for each of the antennas 1 and 2, found at the path
  \<^verbatim>\<open>x.K\<close>, with one channel and two correlations (the second correlation of antenna 2 is
  flagged); the same table with the antenna IDs \<open>-1\<close> and 2; a world in which every
  colour map is known and no measurement set exists; and the options of a call with the
  table name alone and a display mode.
\<close>

definition example_rows :: "int \<Rightarrow> int \<Rightarrow> row list" where
  "example_rows a b =
     [\<lparr>ANTENNA1 = a, FIELD_ID = 0, TIME = 10, FLAG = (\<lambda>c k. False),
       PARAMERR = (\<lambda>c k. flt 1), CPARAM = (\<lambda>c k. cplx 0),
       FPARAM = (\<lambda>c k. if k = 0 then 3 else 4)\<rparr>,
      \<lparr>ANTENNA1 = b, FIELD_ID = 0, TIME = 12, FLAG = (\<lambda>c k. k = 1),
       PARAMERR = (\<lambda>c k. flt 1), CPARAM = (\<lambda>c k. cplx 0),
       FPARAM = (\<lambda>c k. if k = 0 then 5 else 6)\<rparr>]"

definition example_table :: cal_table where
  "example_table =
     \<lparr>has_CPARAM = False, has_FPARAM = True, flag_cells = (1, 2), paramerr_cells = (1, 2),
      param_cells = (1, 2), rows = example_rows 1 2\<rparr>"

definition example_table_neg :: cal_table where
  "example_table_neg =
     \<lparr>has_CPARAM = False, has_FPARAM = True, flag_cells = (1, 2), paramerr_cells = (1, 2),
      param_cells = (1, 2), rows = example_rows (- 1) 2\<rparr>"

definition example_world :: world where
  "example_world =
     \<lparr>table_at = (\<lambda>path. if path = ''x.K'' then Some example_table else None),
      antenna_names = (\<lambda>path. None),
      colormap_known = (\<lambda>name. True)\<rparr>"

definition example_config :: "string \<Rightarrow> config" where
  "example_config mode =
     \<lparr>cfg_args = [''x.K''], cfg_field = 0, cfg_doplot = mode, cfg_plotants = None,
      cfg_corr = 0,
      cfg_ranges = \<lparr>opt_t0 = None, opt_t1 = None, opt_yu0 = None, opt_yu1 = None,
                     opt_yl0 = None, opt_yl1 = None\<rparr>,
      cfg_mycmap = ''coolwarm'', cfg_myms = [], cfg_pngname = []\<rparr>"

section \<open>Properties of \<^verbatim>\<open>determine_table\<close>\<close>

lemma kind_letter_not_digit: "kind_letter c \<Longrightarrow> \<not> is_digit c"
  by (auto simp: kind_letter_def is_digit_def)

lemma digit_not_dot: "is_digit c \<Longrightarrow> c \<noteq> CHR ''.''"
  unfolding is_digit_def by auto

lemma kind_letter_not_dot: "kind_letter c \<Longrightarrow> c \<noteq> CHR ''.''"
  unfolding kind_letter_def by auto

lemma newline_not_digit: "\<not> is_digit newline"
  by (simp add: is_digit_def newline_def)

lemma tail_digits:
  assumes "list_all is_digit ds" "nl = [] \<or> nl = [newline]"
  shows "takeWhile is_digit (ds @ nl) = ds" "dropWhile is_digit (ds @ nl) = nl"
proof -
  have a: "\<And>x. x \<in> set ds \<Longrightarrow> is_digit x"
    using assms(1) by (simp add: list_all_iff)
  have "takeWhile is_digit nl = []" "dropWhile is_digit nl = nl"
    using assms(2) newline_not_digit by auto
  then show "takeWhile is_digit (ds @ nl) = ds" "dropWhile is_digit (ds @ nl) = nl"
    using a by (simp_all add: takeWhile_append2 dropWhile_append2)
qed

lemma match_here_Some_iff:
  "match_here t = Some m \<longleftrightarrow>
     (\<exists>c ds nl. t = CHR ''.'' # c # ds @ nl \<and> kind_letter c \<and> list_all is_digit ds
        \<and> (nl = [] \<or> nl = [newline]) \<and> m = CHR ''.'' # c # ds)"
proof
  assume h: "match_here t = Some m"
  then obtain d c rest where t: "t = d # c # rest"
    by (cases t rule: match_here.cases) simp_all
  from h t have d: "d = CHR ''.''" and k: "kind_letter c"
    and tl: "dropWhile is_digit rest = [] \<or> dropWhile is_digit rest = [newline]"
    and m: "m = d # c # takeWhile is_digit rest"
    by (auto simp: Let_def split: if_splits)
  have "rest = takeWhile is_digit rest @ dropWhile is_digit rest" by simp
  moreover have "list_all is_digit (takeWhile is_digit rest)"
    by (simp add: list_all_iff) (meson set_takeWhileD)
  ultimately have "t = CHR ''.'' # c # takeWhile is_digit rest @ dropWhile is_digit rest
      \<and> kind_letter c \<and> list_all is_digit (takeWhile is_digit rest)
      \<and> (dropWhile is_digit rest = [] \<or> dropWhile is_digit rest = [newline])
      \<and> m = CHR ''.'' # c # takeWhile is_digit rest"
    using t d k tl m by simp
  then show "\<exists>c ds nl. t = CHR ''.'' # c # ds @ nl \<and> kind_letter c \<and> list_all is_digit ds
        \<and> (nl = [] \<or> nl = [newline]) \<and> m = CHR ''.'' # c # ds"
    by (intro exI)
next
  assume "\<exists>c ds nl. t = CHR ''.'' # c # ds @ nl \<and> kind_letter c \<and> list_all is_digit ds
        \<and> (nl = [] \<or> nl = [newline]) \<and> m = CHR ''.'' # c # ds"
  then obtain c ds nl where t: "t = CHR ''.'' # c # ds @ nl" and k: "kind_letter c"
    and ds: "list_all is_digit ds" and nl: "nl = [] \<or> nl = [newline]"
    and m: "m = CHR ''.'' # c # ds" by blast
  show "match_here t = Some m"
    using k nl by (simp add: t m tail_digits [OF ds nl])
qed

lemma match_here_dot:
  assumes "match_here t = Some m"
  shows "\<exists>rest. t = CHR ''.'' # rest \<and> CHR ''.'' \<notin> set rest"
proof -
  from assms obtain c ds nl where t: "t = CHR ''.'' # c # ds @ nl" and k: "kind_letter c"
    and ds: "list_all is_digit ds" and nl: "nl = [] \<or> nl = [newline]"
    unfolding match_here_Some_iff by blast
  have "c \<noteq> CHR ''.''" using k by (rule kind_letter_not_dot)
  moreover have "CHR ''.'' \<notin> set ds" using ds digit_not_dot by (auto simp: list_all_iff)
  moreover have "CHR ''.'' \<notin> set nl" using nl by (auto simp: newline_def)
  ultimately show ?thesis using t by simp
qed

lemma search_Some_iff:
  "search s = Some m \<longleftrightarrow> (\<exists>pre t. s = pre @ t \<and> match_here t = Some m)"
proof
  show "search s = Some m \<Longrightarrow> \<exists>pre t. s = pre @ t \<and> match_here t = Some m"
  proof (induction s)
    case Nil
    then show ?case by simp
  next
    case (Cons x xs)
    show ?case
    proof (cases "match_here (x # xs)")
      case None
      with Cons.prems have "search xs = Some m" by simp
      then obtain pre t where "xs = pre @ t" "match_here t = Some m"
        using Cons.IH by blast
      then have "x # xs = (x # pre) @ t \<and> match_here t = Some m" by simp
      then show ?thesis by blast
    next
      case (Some m')
      with Cons.prems have "x # xs = [] @ (x # xs) \<and> match_here (x # xs) = Some m" by simp
      then show ?thesis by blast
    qed
  qed
next
  assume "\<exists>pre t. s = pre @ t \<and> match_here t = Some m"
  then obtain pre t where s: "s = pre @ t" and mt: "match_here t = Some m" by blast
  from mt obtain rest where t: "t = CHR ''.'' # rest" using match_here_dot by blast
  show "search s = Some m"
    unfolding s
  proof (induction pre)
    case Nil
    then show ?case using mt t by simp
  next
    case (Cons x pre)
    have "match_here (x # pre @ t) = None"
    proof (rule ccontr)
      assume "match_here (x # pre @ t) \<noteq> None"
      then obtain m' where "match_here (x # pre @ t) = Some m'" by blast
      then have "CHR ''.'' \<notin> set (pre @ t)" using match_here_dot by fastforce
      then show False using t by simp
    qed
    then show ?case using Cons.IH by simp
  qed
qed

lemma search_match:
  assumes "kind_letter c" "list_all is_digit ds" "nl = [] \<or> nl = [newline]"
  shows "search (pre @ CHR ''.'' # c # ds @ nl) = Some (CHR ''.'' # c # ds)"
proof -
  have "match_here (CHR ''.'' # c # ds @ nl) = Some (CHR ''.'' # c # ds)"
    unfolding match_here_Some_iff using assms by blast
  then show ?thesis unfolding search_Some_iff by blast
qed

lemma search_None_iff:
  "search s = None \<longleftrightarrow>
     (\<nexists>pre c ds nl. s = pre @ CHR ''.'' # c # ds @ nl \<and> kind_letter c
        \<and> list_all is_digit ds \<and> (nl = [] \<or> nl = [newline]))"
proof -
  have "search s \<noteq> None \<longleftrightarrow>
     (\<exists>pre c ds nl. s = pre @ CHR ''.'' # c # ds @ nl \<and> kind_letter c
        \<and> list_all is_digit ds \<and> (nl = [] \<or> nl = [newline]))"
  proof
    assume "search s \<noteq> None"
    then obtain m where "search s = Some m" by blast
    then obtain pre t where "s = pre @ t" "match_here t = Some m"
      unfolding search_Some_iff by blast
    then show "\<exists>pre c ds nl. s = pre @ CHR ''.'' # c # ds @ nl \<and> kind_letter c
        \<and> list_all is_digit ds \<and> (nl = [] \<or> nl = [newline])"
      unfolding match_here_Some_iff by blast
  next
    assume "\<exists>pre c ds nl. s = pre @ CHR ''.'' # c # ds @ nl \<and> kind_letter c
        \<and> list_all is_digit ds \<and> (nl = [] \<or> nl = [newline])"
    then show "search s \<noteq> None" using search_match by fastforce
  qed
  then show ?thesis by blast
qed

lemma upper_char_digit: "is_digit c \<Longrightarrow> upper_char c = c"
  unfolding is_digit_def
  by (simp only: set_simps insert_iff empty_iff, elim disjE FalseE) (simp_all add: upper_char_def)

lemma upper_char_dot: "upper_char (CHR ''.'') = CHR ''.''"
  by (simp add: upper_char_def)

lemma upper_digits: "list_all is_digit ds \<Longrightarrow> upper ds = ds"
  by (induction ds) (simp_all add: upper_def upper_char_digit)

lemma upper_kind_letter:
  "kind_letter c \<Longrightarrow> upper_char c \<in> {CHR ''G'', CHR ''K'', CHR ''B''}"
  unfolding kind_letter_def
  by (simp only: set_simps insert_iff empty_iff, elim disjE FalseE) (simp_all add: upper_char_def)

lemma contains_digits: "list_all is_digit ds \<Longrightarrow> a \<noteq> [] \<Longrightarrow> \<not> is_digit (hd a) \<Longrightarrow> \<not> contains a ds"
  by (induction ds) (auto simp: neq_Nil_conv)

lemma contains_tag:
  assumes "list_all is_digit ds" "k \<in> {CHR ''G'', CHR ''K'', CHR ''B''}"
  shows "contains [CHR ''.'', x] (CHR ''.'' # k # ds) \<longleftrightarrow> k = x"
proof -
  have "\<not> contains [CHR ''.'', x] ds"
    using assms(1) by (intro contains_digits) (simp_all add: is_digit_def)
  moreover have "\<not> starts_with [CHR ''.'', x] (k # ds)"
    using assms(2) by auto
  ultimately show ?thesis by (cases ds) auto
qed

lemma spec_kind_suffix_iff:
  "spec_kind_suffix s = Some m \<longleftrightarrow>
     (\<exists>pre c ds. s = pre @ CHR ''.'' # c # ds \<and> kind_letter c \<and> list_all is_digit ds
        \<and> m = CHR ''.'' # c # ds)"
proof
  assume h: "spec_kind_suffix s = Some m"
  define r where "r = rev s"
  from h obtain c d p where dw: "dropWhile is_digit r = c # d # p"
    and k: "kind_letter c" and d: "d = CHR ''.''"
    and m: "m = d # c # rev (takeWhile is_digit r)"
    unfolding spec_kind_suffix_def r_def Let_def
    by (auto split: list.splits if_splits)
  have "r = takeWhile is_digit r @ c # d # p" using dw
    by (metis takeWhile_dropWhile_id)
  then have "s = rev p @ CHR ''.'' # c # rev (takeWhile is_digit r)"
    unfolding r_def d by (metis rev_rev_ident rev_append rev.simps(2) append.assoc append_Cons append_Nil)
  moreover have "list_all is_digit (rev (takeWhile is_digit r))"
    by (simp add: list_all_iff) (meson set_takeWhileD)
  ultimately show "\<exists>pre c ds. s = pre @ CHR ''.'' # c # ds \<and> kind_letter c \<and> list_all is_digit ds
        \<and> m = CHR ''.'' # c # ds"
    using k m d by blast
next
  assume "\<exists>pre c ds. s = pre @ CHR ''.'' # c # ds \<and> kind_letter c \<and> list_all is_digit ds
        \<and> m = CHR ''.'' # c # ds"
  then obtain pre c ds where s: "s = pre @ CHR ''.'' # c # ds" and k: "kind_letter c"
    and ds: "list_all is_digit ds" and m: "m = CHR ''.'' # c # ds" by blast
  have r: "rev s = rev ds @ c # CHR ''.'' # rev pre" by (simp add: s)
  have a: "\<And>x. x \<in> set (rev ds) \<Longrightarrow> is_digit x" using ds by (simp add: list_all_iff)
  have "takeWhile is_digit (rev ds @ c # CHR ''.'' # rev pre) =
        rev ds @ takeWhile is_digit (c # CHR ''.'' # rev pre)"
    by (rule takeWhile_append2) (rule a)
  moreover have "dropWhile is_digit (rev ds @ c # CHR ''.'' # rev pre) =
        dropWhile is_digit (c # CHR ''.'' # rev pre)"
    by (rule dropWhile_append2) (rule a)
  ultimately have "takeWhile is_digit (rev s) = rev ds"
    "dropWhile is_digit (rev s) = c # CHR ''.'' # rev pre"
    unfolding r using kind_letter_not_digit [OF k] by simp_all
  then show "spec_kind_suffix s = Some m"
    using k by (simp add: spec_kind_suffix_def m)
qed

text \<open>
  The classifier on every name: it finds the suffix made of a dot, one of the letters
  G, K, B in either case and zero or more digits, standing at the end of the name or just
  before a single newline that ends the name, and returns the matched text with the letter
  in upper case; the digits do not change which of \<^verbatim>\<open>.G\<close>, \<^verbatim>\<open>.K\<close>, \<^verbatim>\<open>.B\<close> the returned string
  contains. When the name has no such suffix the classifier returns the integer \<open>-1\<close>.
\<close>

lemma determine_table_suffix:
  "(kind_letter c \<and> list_all is_digit ds \<and> (nl = [] \<or> nl = [newline]) \<longrightarrow>
      determine_table (pre @ CHR ''.'' # c # ds @ nl) = PyStr (CHR ''.'' # upper_char c # ds)
      \<and> (\<forall>x. contains [CHR ''.'', x] (CHR ''.'' # upper_char c # ds) \<longleftrightarrow> upper_char c = x))
   \<and> ((\<nexists>pre c ds nl. s = pre @ CHR ''.'' # c # ds @ nl \<and> kind_letter c
          \<and> list_all is_digit ds \<and> (nl = [] \<or> nl = [newline])) \<longrightarrow>
      determine_table s = PyInt (- 1))"
proof (intro conjI impI allI)
  assume h: "kind_letter c \<and> list_all is_digit ds \<and> (nl = [] \<or> nl = [newline])"
  then have "search (pre @ CHR ''.'' # c # ds @ nl) = Some (CHR ''.'' # c # ds)"
    by (intro search_match) simp_all
  moreover have "upper (CHR ''.'' # c # ds) = CHR ''.'' # upper_char c # ds"
    using h upper_digits [of ds] by (simp add: upper_def upper_char_dot)
  ultimately show "determine_table (pre @ CHR ''.'' # c # ds @ nl) = PyStr (CHR ''.'' # upper_char c # ds)"
    by (simp add: determine_table_def)
next
  fix x
  assume h: "kind_letter c \<and> list_all is_digit ds \<and> (nl = [] \<or> nl = [newline])"
  then show "contains [CHR ''.'', x] (CHR ''.'' # upper_char c # ds) \<longleftrightarrow> upper_char c = x"
    using contains_tag upper_kind_letter by blast
next
  assume "\<nexists>pre c ds nl. s = pre @ CHR ''.'' # c # ds @ nl \<and> kind_letter c
          \<and> list_all is_digit ds \<and> (nl = [] \<or> nl = [newline])"
  then have "search s = None" unfolding search_None_iff .
  then show "determine_table s = PyInt (- 1)" by (simp add: determine_table_def)
qed

text \<open>
  On a name that does not end with a newline the classifier and the specification's
  wording of it agree.
\<close>

lemma determine_table_refines:
  assumes "s = [] \<or> last s \<noteq> newline"
  shows "determine_table s = spec_determine_table s"
proof (cases "search s")
  case None
  then have n: "\<nexists>pre c ds nl. s = pre @ CHR ''.'' # c # ds @ nl \<and> kind_letter c
          \<and> list_all is_digit ds \<and> (nl = [] \<or> nl = [newline])"
    unfolding search_None_iff .
  have "spec_kind_suffix s = None"
  proof (cases "spec_kind_suffix s")
    case (Some m)
    then obtain pre c ds where "s = pre @ CHR ''.'' # c # ds @ []" "kind_letter c"
      "list_all is_digit ds"
      unfolding spec_kind_suffix_iff by auto
    with n show ?thesis by blast
  qed simp
  with None show ?thesis by (simp add: determine_table_def spec_determine_table_def)
next
  case (Some m)
  then obtain pre t where "s = pre @ t" "match_here t = Some m"
    unfolding search_Some_iff by blast
  then obtain c ds nl where s: "s = pre @ CHR ''.'' # c # ds @ nl" and k: "kind_letter c"
    and ds: "list_all is_digit ds" and nl: "nl = [] \<or> nl = [newline]"
    and m: "m = CHR ''.'' # c # ds"
    unfolding match_here_Some_iff by blast
  have "nl = []"
  proof (rule ccontr)
    assume "nl \<noteq> []"
    with nl have "nl = [newline]" by simp
    with s have "s \<noteq> []" "last s = newline" by simp_all
    with assms show False by simp
  qed
  with s k ds m have "spec_kind_suffix s = Some m"
    unfolding spec_kind_suffix_iff by auto
  with Some show ?thesis by (simp add: determine_table_def spec_determine_table_def)
qed

text \<open>
  Claim C6 says that the classifier matches the suffix at the end of the name, and the
  docstring of the function says the same (\<^verbatim>\<open>Find pattern at end of string\<close>). The name
  \<^verbatim>\<open>x.G\<close> followed by a newline does not end with the suffix, and the specification's
  matcher rejects it; the classifier returns \<^verbatim>\<open>.G\<close> for it, because \<^verbatim>\<open>$\<close> also matches before
  a final newline.
\<close>

theorem determine_table_newline:
  "spec_determine_table (''x.G'' @ [newline]) = PyInt (- 1)
   \<and> determine_table (''x.G'' @ [newline]) = PyStr ''.G''"
  by (simp add: spec_determine_table_def spec_kind_suffix_def determine_table_def
      upper_def upper_char_def is_digit_def kind_letter_def newline_def)

section \<open>Properties of the transforms\<close>

lemma index_rows_valid: "has_index (shape a) corr \<Longrightarrow> index_rows a corr = Inr (column a corr)"
  by (cases "shape a") (simp add: has_index_def index_rows_def column_def)

lemma index_rows_invalid: "\<not> has_index (shape a) corr \<Longrightarrow> index_rows a corr = Inl IndexError"
  by (cases "shape a") (auto simp: has_index_def index_rows_def)



lemma ma_index_rows_invalid:
  assumes "\<not> has_index (shape (ma_data m)) corr"
  shows "ma_index_rows (ma_map f m) corr = Inl IndexError"
proof -
  have "\<not> has_index (shape (arr_map f (ma_data m))) corr"
    using assms by (simp add: arr_map_def)
  then show ?thesis
    by (simp add: ma_index_rows_def ma_map_def and_then_def index_rows_invalid)
qed

lemma ma_index_rows_id:
  assumes "wf_masked m" "has_index (shape (ma_data m)) corr"
  shows "ma_index_rows m corr = Inr (Masked (column (ma_data m) corr) (column (ma_mask m) corr))"
proof -
  have k: "has_index (shape (ma_mask m)) corr"
    using assms by (simp add: wf_masked_def)
  show ?thesis
    by (simp add: ma_index_rows_def and_then_def index_rows_valid [OF assms(2)]
        index_rows_valid [OF k])
qed

lemma int_not_pair: "corr = 0 \<or> corr = 1 \<Longrightarrow> int_not corr = 1 - corr"
  by (auto simp: int_not_def)

lemma data_prep_K_columns:
  assumes "corr = 0 \<or> corr = 1" and "wf_masked masked_data"
    and "has_index (shape (ma_data masked_data)) 0"
    and "has_index (shape (ma_data masked_data)) 1"
  shows "data_prep_K masked_data masked_data_err corr =
           Inr (Plain (column (ma_data masked_data) corr), masked_data_err,
                Plain (column (ma_data masked_data) (1 - corr)), masked_data_err)"
proof -
  from assms have a: "has_index (shape (ma_data masked_data)) corr"
    and b: "has_index (shape (ma_data masked_data)) (1 - corr)"
    by auto
  show ?thesis
    using assms(1) by (simp add: data_prep_K_def and_then_def
        ma_index_rows_id [OF assms(2) a] ma_index_rows_id [OF assms(2) b] int_not_pair)
qed












lemma from_lists_column:
  "column (from_lists [[[a]], [[b]]]) 0 = [a, b]"
  "column (from_lists [[[a, a']], [[b, b']]]) 0 = [a, b]"
  "column (from_lists [[[a, a']], [[b, b']]]) 1 = [a', b']"
  by (simp_all add: column_def from_lists_def position_def upt_rec)

lemma from_lists_has_index:
  "has_index (shape (from_lists [[[a]], [[b]]])) 0"
  "has_index (shape (from_lists [[[a, a']], [[b, b']]])) 0"
  "has_index (shape (from_lists [[[a, a']], [[b, b']]])) 1"
  by (simp_all add: has_index_def from_lists_def valid_index_def)

lemma from_lists_wf:
  "wf_masked \<lparr>ma_data = from_lists [[[a]], [[b]]], ma_mask = from_lists [[[f]], [[g]]]\<rparr>"
  "wf_masked \<lparr>ma_data = from_lists [[[a, a']], [[b, b']]],
              ma_mask = from_lists [[[f, f']], [[g, g']]]\<rparr>"
  by (simp_all add: wf_masked_def from_lists_def)

text \<open>
  Claim C7 says that \<^verbatim>\<open>y1\<close> and \<^verbatim>\<open>y2\<close> are the masked values at the two correlations. On a
  delay array whose cell at row 0, correlation 1 is flagged, the column at correlation 1 is
  the masked series with that cell masked, and \<^verbatim>\<open>data_prep_K\<close> returns it through
  \<^verbatim>\<open>np.array\<close> as a plain series in which the flagged value 2 stands unmasked. (The error
  array is passed through unchanged, and \<^verbatim>\<open>y2\<close> is the other correlation, as the claim says.)
\<close>

theorem data_prep_K_drops_mask:
  "data_prep_K
     \<lparr>ma_data = from_lists [[[1, 2]], [[3, 4]]],
      ma_mask = from_lists [[[False, True]], [[False, False]]]\<rparr>
     \<lparr>ma_data = from_lists [[[flt 5, flt 6]], [[flt 7, flt 8]]],
      ma_mask = from_lists [[[False, True]], [[False, False]]]\<rparr> 1
   = Inr (Plain [2, 4],
          \<lparr>ma_data = from_lists [[[flt 5, flt 6]], [[flt 7, flt 8]]],
           ma_mask = from_lists [[[False, True]], [[False, False]]]\<rparr>,
          Plain [1, 3],
          \<lparr>ma_data = from_lists [[[flt 5, flt 6]], [[flt 7, flt 8]]],
           ma_mask = from_lists [[[False, True]], [[False, False]]]\<rparr>)
   \<and> ma_index_rows
       \<lparr>ma_data = from_lists [[[1, 2]], [[3, 4::real]]],
        ma_mask = from_lists [[[False, True]], [[False, False]]]\<rparr> 1
     = Inr (Masked [2, 4] [True, False])"
proof -
  let ?d = "\<lparr>ma_data = from_lists [[[1, 2]], [[3, 4::real]]],
             ma_mask = from_lists [[[False, True]], [[False, False]]]\<rparr>"
  have w: "wf_masked ?d" by (rule from_lists_wf)
  have h0: "has_index (shape (ma_data ?d)) 0" and h1: "has_index (shape (ma_data ?d)) 1"
    by (simp_all add: from_lists_has_index)
  have c: "(1::int) = 0 \<or> (1::int) = 1" by simp
  show ?thesis
    by (simp add: data_prep_K_columns [OF c w h0 h1] ma_index_rows_id [OF w h1]
        from_lists_column)
qed






text \<open>The sign of a zero imaginary part decides between \<open>180\<close> and \<open>-180\<close> degrees.\<close>

lemma np_angle_signed_zero:
  "np_rad2deg (np_angle \<lparr>c_value = - 1, re_negzero = False, im_negzero = False\<rparr>) = 180"
  "np_rad2deg (np_angle \<lparr>c_value = - 1, re_negzero = False, im_negzero = True\<rparr>) = - 180"
  by (simp_all add: np_angle_def arctan2_def np_rad2deg_def)



lemma data_prep_G_invalid:
  "\<not> has_index (shape (ma_data v)) corr \<Longrightarrow> data_prep_G v e doplot corr = Inl IndexError"
  by (simp add: data_prep_G_def and_then_def ma_index_rows_invalid)



section \<open>Antenna selection at a concrete input\<close>

lemma py_int_digit:
  "py_int ''7'' = Inr 7" "py_int ''8'' = Inr 8" "py_int ''0'' = Inr 0"
  by (simp_all add: py_int_def is_space_def is_digit_def digits_val_def digit_val_def)

text \<open>
  Claim C9 says that a validation that completes retains only antennas of the table. For
  the request \<^verbatim>\<open>7,8,0\<close> on a table with the antennas 0, 1, 2 the loop removes \<^verbatim>\<open>7\<close>, which
  moves \<^verbatim>\<open>8\<close> to the position already visited; \<^verbatim>\<open>8\<close> is never tested and stays in the
  selection, and the validation completes.
\<close>

theorem select_antennas_keeps_invalid:
  "select_antennas (Some ''7,8,0'') [0, 1, 2] =
     ([Print ''Requested antenna ID 7 not found''], Inr [8, 0])
   \<and> (8::int) \<notin> set [0, 1, 2]"
  by (simp add: select_antennas_def then_do_def lift_def and_then_def to_int64_def py_int_digit)

section \<open>Properties of the axis ranges\<close>

lemma pad_min_eq: "(if m < 0 then - 1 * (1.1 * \<bar>m\<bar>) else m * 0.9) = pad_min (m::real)"
  by (simp add: pad_min_def)

lemma chosen_eq:
  "(if option_float s \<noteq> - 1 then option_float s else c) = chosen s c"
  by (simp add: chosen_def option_float_def split: option.split)

text \<open>
  Claim C4, amended. For every accumulated extent, finalization pads the x axis by 400 on
  both ends, replaces each y minimum \<open>m\<close> by \<open>m * 1.1\<close> when \<open>m < 0\<close> and by \<open>m * 0.9\<close>
  otherwise, and replaces each y maximum \<open>m\<close> by \<open>m * 1.1\<close>; a bound that the caller supplies
  with a value other than \<open>-1\<close> replaces the computed bound outright, while a bound that is
  not supplied, or supplied as \<open>-1\<close>, leaves the computed bound. In particular, when
  \<^verbatim>\<open>yl0\<close> and \<^verbatim>\<open>yl1\<close> are supplied and differ from \<open>-1\<close>, the finalized range of the lower panel
  is exactly the supplied pair, whatever the extents.
\<close>

theorem finalize_ranges_padding:
  "finalize_ranges e (read_bounds c) =
     \<lparr>xmin = chosen (opt_t0 c) (xmin e - 400),
      xmax = chosen (opt_t1 c) (xmax e + 400),
      ylmin = chosen (opt_yl0 c) (pad_min (ylmin e)),
      ylmax = chosen (opt_yl1 c) (ylmax e * 1.1),
      yumin = chosen (opt_yu0 c) (pad_min (yumin e)),
      yumax = chosen (opt_yu1 c) (yumax e * 1.1)\<rparr>
   \<and> (opt_yl0 c = Some lo \<and> lo \<noteq> - 1 \<and> opt_yl1 c = Some hi \<and> hi \<noteq> - 1 \<longrightarrow>
        ylmin (finalize_ranges e (read_bounds c)) = lo
        \<and> ylmax (finalize_ranges e (read_bounds c)) = hi)"
proof -
  have eq: "finalize_ranges e (read_bounds c) =
     \<lparr>xmin = chosen (opt_t0 c) (xmin e - 400),
      xmax = chosen (opt_t1 c) (xmax e + 400),
      ylmin = chosen (opt_yl0 c) (pad_min (ylmin e)),
      ylmax = chosen (opt_yl1 c) (ylmax e * 1.1),
      yumin = chosen (opt_yu0 c) (pad_min (yumin e)),
      yumax = chosen (opt_yu1 c) (yumax e * 1.1)\<rparr>"
    unfolding finalize_ranges_def read_bounds_def Let_def
    by (simp only: bounds.simps pad_min_eq chosen_eq)
  show ?thesis
    unfolding eq by (simp add: chosen_def)
qed

theorem finalize_ranges_padding_witness:
  "opt_yl0 \<lparr>opt_t0 = None, opt_t1 = None, opt_yu0 = None, opt_yu1 = None,
            opt_yl0 = Some (- 180), opt_yl1 = Some 180\<rparr> = Some (- 180)
   \<and> (- 180::real) \<noteq> - 1 \<and> (180::real) \<noteq> - 1
   \<and> finalize_ranges \<lparr>xmin = 0, xmax = 100, ylmin = - 20, ylmax = 30, yumin = 1, yumax = 2\<rparr>
        (read_bounds \<lparr>opt_t0 = None, opt_t1 = None, opt_yu0 = None, opt_yu1 = None,
                      opt_yl0 = Some (- 180), opt_yl1 = Some 180\<rparr>)
      = \<lparr>xmin = - 400, xmax = 500, ylmin = - 180, ylmax = 180, yumin = 0.9, yumax = 2.2\<rparr>"
proof -
  let ?c = "\<lparr>opt_t0 = None, opt_t1 = None, opt_yu0 = None, opt_yu1 = None,
            opt_yl0 = Some (- 180), opt_yl1 = Some (180::real)\<rparr>"
  let ?e = "\<lparr>xmin = 0, xmax = 100, ylmin = - 20, ylmax = 30, yumin = 1, yumax = (2::real)\<rparr>"
  have h: "opt_yl0 ?c = Some (- 180) \<and> (- 180::real) \<noteq> - 1
           \<and> opt_yl1 ?c = Some 180 \<and> (180::real) \<noteq> - 1"
    by simp
  note T = finalize_ranges_padding [of ?e ?c "- 180" 180]
  note lower = conjunct2 [OF T, THEN mp, OF h]
  from conjunct1 [OF T] lower h show ?thesis
    by (simp add: chosen_def pad_min_def)
qed

text \<open>
  The claim as stated lets every supplied bound win. A lower bound supplied as \<open>-1\<close> is
  taken for the default: with the observed minimum 5 the finalized minimum is 4.5.
\<close>

theorem finalize_ranges_sentinel_counterexample:
  "ylmin (finalize_ranges \<lparr>xmin = 0, xmax = 100, ylmin = 5, ylmax = 30, yumin = 1, yumax = 2\<rparr>
        (read_bounds \<lparr>opt_t0 = None, opt_t1 = None, opt_yu0 = None, opt_yu1 = None,
                      opt_yl0 = Some (- 1), opt_yl1 = Some 180\<rparr>)) = 4.5
   \<and> (4.5::real) \<noteq> - 1"
  by (simp add: finalize_ranges_def read_bounds_def option_float_def)

section \<open>Properties of legend batching\<close>

lemma num_legend_objs_div: "num_legend_objs n = (n + 15) div 16"
proof -
  define q where "q = (n + 15) div 16"
  have a: "n \<le> 16 * q" and b: "16 * q < n + 16"
    unfolding q_def by arith+
  have "\<lceil>real n / 16\<rceil> = int q"
  proof (rule ceiling_unique)
    from b have "real (16 * q) < real (n + 16)" by (simp only: of_nat_less_iff)
    then show "real_of_int (int q) - 1 < real n / 16" by simp
    from a have "real n \<le> real (16 * q)" by (simp only: of_nat_le_iff)
    then show "real n / 16 \<le> real_of_int (int q)" by simp
  qed
  then show ?thesis by (simp add: q_def num_legend_objs_def BATCH_SIZE_def)
qed

lemma batch_loop_map:
  "\<forall>i \<in> set idx. i \<noteq> num \<Longrightarrow>
   batch_loop items num idx j acc =
     acc @ map (\<lambda>k. take 16 (drop (j + 16 * k) items)) [0..<length idx]"
proof (induction idx arbitrary: j acc)
  case Nil
  then show ?case by simp
next
  case (Cons i rest)
  have "batch_loop items num (i # rest) j acc =
        batch_loop items num rest (j + 16) (acc @ [take 16 (drop j items)])"
    using Cons.prems by (simp add: BATCH_SIZE_def slice_def)
  also have "\<dots> = (acc @ [take 16 (drop j items)]) @
        map (\<lambda>k. take 16 (drop (j + 16 + 16 * k) items)) [0..<length rest]"
    using Cons.prems by (intro Cons.IH) simp
  also have "\<dots> = acc @ map (\<lambda>k. take 16 (drop (j + 16 * k) items)) [0..<length (i # rest)]"
    by (simp add: map_upt_Suc add.assoc del: upt_Suc)
  finally show ?case .
qed

lemma make_batches_map:
  "make_batches n items = map (\<lambda>k. take 16 (drop (16 * k) items)) [0..<num_legend_objs n]"
  unfolding make_batches_def by (subst batch_loop_map) simp_all

lemma concat_chunks:
  "concat (map (\<lambda>k. take 16 (drop (16 * k) items)) [0..<m]) = take (16 * m) items"
proof (induction m)
  case 0
  then show ?case by simp
next
  case (Suc m)
  have "take (16 * Suc m) items = take (16 * m + 16) items" by (simp add: add.commute)
  also have "\<dots> = take (16 * m) items @ take 16 (drop (16 * m) items)"
    by (rule take_add)
  finally show ?case using Suc by simp
qed

lemma chunk_nth:
  "take 16 (drop (16 * i) items) = map (\<lambda>r. items ! r) [i * 16..<min ((i + 1) * 16) (length items)]"
proof (rule nth_equalityI)
  show "length (take 16 (drop (16 * i) items)) =
        length (map (\<lambda>r. items ! r) [i * 16..<min ((i + 1) * 16) (length items)])"
    by (auto simp: min_def)
next
  fix k assume "k < length (take 16 (drop (16 * i) items))"
  then have k: "k < 16" "16 * i + k < length items" by auto
  then have "i * 16 + k < min ((i + 1) * 16) (length items)" by simp
  then show "take 16 (drop (16 * i) items) ! k =
             map (\<lambda>r. items ! r) [i * 16..<min ((i + 1) * 16) (length items)] ! k"
    using k by (simp add: mult.commute)
qed

text \<open>
  Claim C5. For a handle list of length \<open>n\<close> (one legend item per plotted antenna, so
  \<^verbatim>\<open>len(plotants)\<close> is the length of the list), batching with batch size 16 gives exactly
  \<open>\<lceil>n / 16\<rceil>\<close> batches, batch \<open>i\<close> holds the handles at ranks
  \<open>[i * 16, min ((i + 1) * 16) n)\<close> in the given order, and the batches concatenated in
  index order are the original list.
\<close>

theorem legend_batches:
  "length (make_batches (length items) items) = nat \<lceil>real (length items) / 16\<rceil>
   \<and> (\<forall>i < length (make_batches (length items) items).
         make_batches (length items) items ! i =
           map (\<lambda>r. items ! r) [i * 16..<min ((i + 1) * 16) (length items)])
   \<and> concat (make_batches (length items) items) = items"
proof (intro conjI allI impI)
  show "length (make_batches (length items) items) = nat \<lceil>real (length items) / 16\<rceil>"
    by (simp add: make_batches_map num_legend_objs_def BATCH_SIZE_def)
next
  fix i assume "i < length (make_batches (length items) items)"
  then have "i < num_legend_objs (length items)" by (simp add: make_batches_map)
  then show "make_batches (length items) items ! i =
             map (\<lambda>r. items ! r) [i * 16..<min ((i + 1) * 16) (length items)]"
    by (simp add: make_batches_map chunk_nth)
next
  have "length items \<le> 16 * num_legend_objs (length items)"
    unfolding num_legend_objs_div by arith
  then show "concat (make_batches (length items) items) = items"
    by (simp add: make_batches_map concat_chunks)
qed

theorem legend_batches_witness:
  "(1::nat) < length (make_batches (length [0..<20::nat]) [0..<20])
   \<and> make_batches (length [0..<20::nat]) [0..<20] ! 1 = [16, 17, 18, 19]"
proof -
  have l: "length (make_batches (length [0..<20::nat]) [0..<20]) = 2"
    using legend_batches [of "[0..<20::nat]"] num_legend_objs_div [of 20]
    by (simp add: num_legend_objs_def BATCH_SIZE_def)
  have "make_batches (length [0..<20::nat]) [0..<20] ! 1 =
        map (\<lambda>r. [0..<20::nat] ! r) [1 * 16..<min ((1 + 1) * 16) (length [0..<20::nat])]"
    using legend_batches [of "[0..<20::nat]"] l by simp
  also have "\<dots> = [16, 17, 18, 19]"
    by (simp add: upt_rec)
  finally show ?thesis using l by simp
qed

section \<open>The callbacks and the select-all invariant\<close>

lemma set_items_keeps:
  "antsel_active (snd (set_items bax k b idx v)) = antsel_active v
   \<and> batchsel_active (snd (set_items bax k b idx v)) = batchsel_active v"
  by (induction idx arbitrary: v) simp_all

lemma set_items_ok:
  "\<forall>i \<in> set idx. k < length bax \<and> i < length (bax ! k) \<Longrightarrow>
   fst (set_items bax k b idx v) = None"
  by (induction idx arbitrary: v) simp_all

lemma set_items_fails:
  "\<exists>i \<in> set idx. \<not> (k < length bax \<and> i < length (bax ! k)) \<Longrightarrow>
   fst (set_items bax k b idx v) = Some JsTypeError"
  by (induction idx arbitrary: v) auto

lemma batch_block_keeps:
  "antsel_active (snd (batch_block bax k v)) = antsel_active v
   \<and> batchsel_active (snd (batch_block bax k v)) = batchsel_active v"
  by (cases bax) (simp_all add: batch_block_def set_items_keeps)

lemma batch_block_ok:
  assumes "bax \<noteq> []" "k < length bax" "length (hd bax) \<le> length (bax ! k)"
  shows "fst (batch_block bax k v) = None"
proof -
  from assms(1) obtain first rest where bax: "bax = first # rest" by (cases bax) auto
  have "\<forall>i \<in> set [0..<length first]. k < length bax \<and> i < length (bax ! k)"
    using assms bax by auto
  then have "fst (set_items bax k (k \<in> set (batchsel_active v)) [0..<length first] v) = None"
    by (rule set_items_ok)
  then show ?thesis by (simp add: batch_block_def bax)
qed

lemma batch_block_fails:
  assumes "bax \<noteq> []" "hd bax \<noteq> []"
    "\<not> k < length bax \<or> length (bax ! k) < length (hd bax)"
  shows "fst (batch_block bax k v) = Some JsTypeError"
proof -
  from assms(1) obtain first rest where bax: "bax = first # rest" by (cases bax) auto
  have "\<exists>i \<in> set [0..<length first]. \<not> (k < length bax \<and> i < length (bax ! k))"
  proof (cases "k < length bax")
    case True
    with assms(3) bax have "length (bax ! k) < length first" by simp
    then have "length (bax ! k) \<in> set [0..<length first]" by simp
    then show ?thesis by blast
  next
    case False
    moreover from assms(2) bax have "0 \<in> set [0..<length first]" by simp
    ultimately show ?thesis by blast
  qed
  then have "fst (set_items bax k (k \<in> set (batchsel_active v)) [0..<length first] v)
             = Some JsTypeError"
    by (rule set_items_fails)
  then show ?thesis by (simp add: batch_block_def bax)
qed

lemma js_then_None:
  "fst r = None \<Longrightarrow> js_then r f = f (snd r)"
  by (cases r) (simp add: js_then_def)

lemma js_then_Some:
  "fst r = Some e \<Longrightarrow> js_then r f = r"
  by (cases r) (simp add: js_then_def)

lemma sync_toggle_keeps: "batchsel_active (snd (sync_toggle v)) = batchsel_active v"
  by (simp add: sync_toggle_def)

lemma callback_keeps_batchsel:
  "batchsel_active (snd (batch_select_callback bax v)) = batchsel_active v"
proof -
  have step: "\<And>r f. (\<And>w. batchsel_active (snd (f w)) = batchsel_active w) \<Longrightarrow>
      batchsel_active (snd (js_then r f)) = batchsel_active (snd r)"
    subgoal for r f by (cases r; cases "fst r") (auto simp: js_then_def)
    done
  show ?thesis
    unfolding batch_select_callback_def
    by (simp add: step batch_block_keeps sync_toggle_keeps)
qed

lemma callback_stops_at_1:
  assumes "fst (batch_block bax 0 v) = None"
    and "\<And>w. fst (batch_block bax 1 w) = Some JsTypeError"
  shows "fst (batch_select_callback bax v) = Some JsTypeError"
    and "antsel_active (snd (batch_select_callback bax v)) = antsel_active v"
proof -
  let ?v1 = "snd (batch_block bax 0 v)"
  have "batch_select_callback bax v = batch_block bax 1 ?v1"
    unfolding batch_select_callback_def
    by (simp only: js_then_None [OF assms(1)] js_then_Some [OF assms(2)])
  then show "fst (batch_select_callback bax v) = Some JsTypeError"
    and "antsel_active (snd (batch_select_callback bax v)) = antsel_active v"
    using assms(2) batch_block_keeps by simp_all
qed

lemma callback_completes:
  assumes "\<And>k w. k < 4 \<Longrightarrow> fst (batch_block bax k w) = None"
  shows "fst (batch_select_callback bax v) = None"
    and "antsel_active (snd (batch_select_callback bax v)) =
           (if length (batchsel_active v) = 4 then True
            else if length (batchsel_active v) = 0 then False else antsel_active v)"
proof -
  let ?v1 = "snd (batch_block bax 0 v)"
  let ?v2 = "snd (batch_block bax 1 ?v1)"
  let ?v3 = "snd (batch_block bax 2 ?v2)"
  let ?v4 = "snd (batch_block bax 3 ?v3)"
  have eq: "batch_select_callback bax v = sync_toggle ?v4"
    unfolding batch_select_callback_def
    by (simp add: js_then_None assms)
  have "antsel_active ?v4 = antsel_active v" "batchsel_active ?v4 = batchsel_active v"
    by (simp_all add: batch_block_keeps)
  then show "fst (batch_select_callback bax v) = None"
    and "antsel_active (snd (batch_select_callback bax v)) =
           (if length (batchsel_active v) = 4 then True
            else if length (batchsel_active v) = 0 then False else antsel_active v)"
    unfolding eq by (simp_all add: sync_toggle_def)
qed

lemma batches_shape:
  assumes "n = length items"
  shows "length (make_batches n items) = (n + 15) div 16"
    and "k < (n + 15) div 16 \<Longrightarrow>
         length (make_batches n items ! k) = min 16 (n - 16 * k)"
  using assms by (simp_all add: make_batches_map num_legend_objs_div)

lemma click_batch_20:
  "fst (handle_event 20 v (ClickBatch b)) = Some JsTypeError
   \<and> antsel_active (snd (handle_event 20 v (ClickBatch b))) = antsel_active v
   \<and> batchsel_active (snd (handle_event 20 v (ClickBatch b))) =
       filter (\<lambda>i. (i \<in> set (batchsel_active v)) \<noteq> (i = b)) [0..<2]"
proof -
  let ?bax = "make_batches 20 [0..<20]"
  have len: "length ?bax = 2" and l0: "length (?bax ! 0) = 16" and l1: "length (?bax ! 1) = 4"
    using batches_shape [of 20 "[0..<20]"] by simp_all
  have ne: "?bax \<noteq> []" using len by auto
  have hd0: "hd ?bax = ?bax ! 0" using ne by (simp add: hd_conv_nth)
  have ok0: "\<And>w. fst (batch_block ?bax 0 w) = None"
    by (rule batch_block_ok) (simp_all add: ne len hd0)
  have bad1: "\<And>w. fst (batch_block ?bax 1 w) = Some JsTypeError"
    by (rule batch_block_fails) (use ne len hd0 l0 l1 in auto)
  note r = callback_stops_at_1 [of ?bax, OF ok0 bad1]
  show ?thesis
    by (simp add: handle_event_def r callback_keeps_batchsel num_legend_objs_div)
qed

lemma click_batch_64:
  "fst (handle_event 64 v (ClickBatch b)) = None
   \<and> antsel_active (snd (handle_event 64 v (ClickBatch b))) =
       (let active = filter (\<lambda>i. (i \<in> set (batchsel_active v)) \<noteq> (i = b)) [0..<4]
        in if length active = 4 then True else if length active = 0 then False
           else antsel_active v)
   \<and> batchsel_active (snd (handle_event 64 v (ClickBatch b))) =
       filter (\<lambda>i. (i \<in> set (batchsel_active v)) \<noteq> (i = b)) [0..<4]"
proof -
  let ?bax = "make_batches 64 [0..<64]"
  have len: "length ?bax = 4"
    and lk: "\<And>k. k < 4 \<Longrightarrow> length (?bax ! k) = 16"
    using batches_shape [of 64 "[0..<64]"] by simp_all
  have ne: "?bax \<noteq> []" using len by auto
  have hd0: "hd ?bax = ?bax ! 0" using ne by (simp add: hd_conv_nth)
  have ok: "\<And>k w. k < 4 \<Longrightarrow> fst (batch_block ?bax k w) = None"
    by (rule batch_block_ok) (simp_all add: ne len hd0 lk)
  note r = callback_completes [of ?bax, OF ok]
  show ?thesis
    by (simp add: handle_event_def r callback_keeps_batchsel num_legend_objs_div Let_def)
qed

text \<open>
  Claim C1 says that after every event the select-all toggle shows the conjunction of all
  batch checkboxes, for every number of batches. The callbacks are written for exactly four
  batches. With 20 antennas (two batches), checking box 0 and then box 1 leaves both boxes
  checked and the toggle off: each time the callback throws on the shorter second batch
  before it reaches the update of the toggle. With 64 antennas (four full batches) the
  callback completes, and unchecking box 0 after a select-all leaves the toggle on, since
  the update handles only the lengths 4 and 0 of the active list.
\<close>

theorem toggle_out_of_sync:
  "antsel_active (handle_events 20 (initial_view (True # replicate 19 False) (True # replicate 19 False))
       [ClickBatch 0, ClickBatch 1]) = False
   \<and> all_batches_active 20 (handle_events 20
         (initial_view (True # replicate 19 False) (True # replicate 19 False))
         [ClickBatch 0, ClickBatch 1])
   \<and> fst (handle_event 20 (initial_view (True # replicate 19 False) (True # replicate 19 False))
         (ClickBatch 0)) = Some JsTypeError
   \<and> antsel_active (handle_events 64 (initial_view (replicate 64 False) (replicate 64 False))
       [ClickSelectAll, ClickBatch 0]) = True
   \<and> \<not> all_batches_active 64 (handle_events 64
         (initial_view (replicate 64 False) (replicate 64 False)) [ClickSelectAll, ClickBatch 0])
   \<and> fst (handle_event 64
         (handle_events 64 (initial_view (replicate 64 False) (replicate 64 False)) [ClickSelectAll])
         (ClickBatch 0)) = None"
proof -
  have up2: "[0..<2] = [0, Suc 0]" and up4: "[0..<4] = [0, 1, 2, 3]"
    by (simp_all add: upt_rec)
  have sel: "snd (handle_event 64 v ClickSelectAll) =
      (if antsel_active v
       then v\<lparr>antsel_active := False, antsel_label := ''Select all Antennas'',
                glyph1 := map (\<lambda>_. False) (glyph1 v), glyph2 := map (\<lambda>_. False) (glyph2 v),
                batchsel_active := []\<rparr>
       else v\<lparr>antsel_active := True, antsel_label := ''Deselect all Antennas'',
                glyph1 := map (\<lambda>_. True) (glyph1 v), glyph2 := map (\<lambda>_. True) (glyph2 v),
                batchsel_active := [0, 1, 2, 3]\<rparr>)" for v
    by (simp add: handle_event_def ant_select_callback_def)
  show ?thesis
    by (simp add: click_batch_20 click_batch_64 sel all_batches_active_def initial_view_def
        num_legend_objs_div up2 up4 Let_def)
qed

section \<open>Properties of the dispatch\<close>

lemma quiet_then_do:
  "quiet bad (then_do m f) \<longleftrightarrow> quiet bad m \<and> (\<forall>x. snd m = Inr x \<longrightarrow> quiet bad (f x))"
proof (cases m)
  case (Pair tr r)
  show ?thesis
  proof (cases r)
    case (Inl e)
    with Pair show ?thesis by (simp add: then_do_def quiet_def)
  next
    case (Inr x)
    with Pair show ?thesis by (cases "f x") (simp add: then_do_def quiet_def)
  qed
qed

lemma quiet_basic:
  "quiet bad (ret x)" "quiet bad (stop e)" "quiet bad (lift r)" "quiet bad (emit ev) = (\<not> bad ev)"
  by (simp_all add: quiet_def ret_def stop_def lift_def emit_def split: sum.split)

lemma quiet_getcol: "\<not> bad (SubGetCol name) \<Longrightarrow> quiet bad (subtab_getcol present col name subtab)"
  by (simp add: subtab_getcol_def quiet_then_do quiet_basic)

lemma quiet_getarr:
  "\<not> bad (SubGetCol name) \<Longrightarrow> quiet bad (subtab_getarr present cells col name subtab)"
  by (simp add: subtab_getarr_def quiet_then_do quiet_basic)

lemma quiet_prepare:
  assumes "\<And>name. \<not> bad (SubGetCol name)"
  shows "quiet bad (prepare_G doplot subtab tms flagcol paramerr corr)"
    and "quiet bad (prepare_B doplot subtab tms flagcol paramerr corr)"
    and "quiet bad (prepare_K subtab tms flagcol paramerr corr)"
    and "quiet bad (reread_times subtab)"
  by (simp_all add: prepare_G_def prepare_B_def prepare_K_def reread_times_def Let_def
      quiet_then_do quiet_basic quiet_getcol quiet_getarr assms split: prod.split)

lemma determine_table_cases:
  "determine_table t = PyInt (- 1)
   \<or> (\<exists>k ds. determine_table t = PyStr (CHR ''.'' # k # ds)
         \<and> k \<in> {CHR ''G'', CHR ''K'', CHR ''B''} \<and> list_all is_digit ds)"
proof (cases "search t")
  case None
  then show ?thesis by (simp add: determine_table_def)
next
  case (Some m)
  then obtain pre u where "t = pre @ u" "match_here u = Some m"
    unfolding search_Some_iff by blast
  then obtain c ds where m: "m = CHR ''.'' # c # ds" and k: "kind_letter c"
    and ds: "list_all is_digit ds"
    unfolding match_here_Some_iff by blast
  have "upper m = CHR ''.'' # upper_char c # ds"
    using upper_digits [OF ds] by (simp add: m upper_def upper_char_dot)
  then have "determine_table t = PyStr (CHR ''.'' # upper_char c # ds)"
    using Some by (simp add: determine_table_def)
  then show ?thesis using upper_kind_letter [OF k] ds by blast
qed

lemma py_in_tag:
  assumes "k \<in> {CHR ''G'', CHR ''K'', CHR ''B''}" "list_all is_digit ds"
  shows "py_in [CHR ''.'', x] (PyStr (CHR ''.'' # k # ds)) = Inr (k = x)"
  using contains_tag [OF assms(2) assms(1)] by simp

lemma then_do_lift:
  "then_do (lift (Inr x)) f = f x" "then_do (lift (Inl e)) f = ([], Inl (Raised e))"
  by (simp_all add: then_do_def lift_def split: prod.split)

lemma then_do_fail: "then_do (tr, Inl e) f = (tr, Inl e)"
  by (simp add: then_do_def)

lemma then_do_ret: "then_do (ret x) f = f x"
  by (simp add: then_do_def ret_def split: prod.split)

lemma then_do_stop: "then_do (stop e) f = stop e"
  by (simp add: then_do_def stop_def)

lemma dispatch_no_match:
  assumes "determine_table mytab = PyInt n" "doplot = ''ap'' \<or> doplot = ''ri''"
  shows "dispatch doplot mytab subtab tms flagcol paramerr corr = ([], Inl (Raised TypeError))"
  using assms(2) by (auto simp: dispatch_def assms(1) then_do_lift then_do_fail)

lemma dispatch_quiet:
  "quiet (\<lambda>e. e = Print ''Invalid table'')
     (dispatch doplot mytab subtab tms flagcol paramerr corr)"
proof -
  let ?bad = "\<lambda>e. e = Print ''Invalid table''"
  have q: "\<And>name. \<not> ?bad (SubGetCol name)" by simp
  note qp = quiet_prepare [of ?bad, OF q] quiet_getcol [of ?bad, OF q]
    quiet_getarr [of ?bad, OF q]
  from determine_table_cases [of mytab] show ?thesis
  proof (elim disjE exE conjE)
    assume "determine_table mytab = PyInt (- 1)"
    then show ?thesis
      by (simp add: dispatch_def then_do_lift then_do_fail quiet_def stop_def)
  next
    fix k ds
    assume t: "determine_table mytab = PyStr (CHR ''.'' # k # ds)"
      and k: "k \<in> {CHR ''G'', CHR ''K'', CHR ''B''}" and ds: "list_all is_digit ds"
    note tag = py_in_tag [OF k ds]
    from k show ?thesis
      by (auto simp: dispatch_def t tag then_do_lift quiet_then_do quiet_basic qp
          split: prod.split)
  qed
qed

text \<open>
  Claim C8. The dispatch never prints the message \<^verbatim>\<open>Invalid table\<close>, whatever the mode, the
  table name and the data: its message-and-exit branch is unreachable. For a table name
  that does not match the suffix pattern the classifier returns the integer \<open>-1\<close>, the
  first test \<^verbatim>\<open>".G" in determine_table(mytab)\<close> is a membership test on that integer and
  raises \<^verbatim>\<open>TypeError\<close>, and in both modes the dispatch ends with that exception, having
  printed nothing.
\<close>

theorem invalid_table_unreachable:
  "Print ''Invalid table'' \<notin> set (fst (dispatch doplot mytab subtab tms flagcol paramerr corr))
   \<and> ((\<nexists>pre c ds nl. mytab = pre @ CHR ''.'' # c # ds @ nl \<and> kind_letter c
          \<and> list_all is_digit ds \<and> (nl = [] \<or> nl = [newline])) \<longrightarrow>
        determine_table mytab = PyInt (- 1)
        \<and> py_in ''.G'' (determine_table mytab) = Inl TypeError
        \<and> (doplot = ''ap'' \<or> doplot = ''ri'' \<longrightarrow>
             dispatch doplot mytab subtab tms flagcol paramerr corr = ([], Inl (Raised TypeError))))"
proof (intro conjI impI)
  show "Print ''Invalid table'' \<notin> set (fst (dispatch doplot mytab subtab tms flagcol paramerr corr))"
    using dispatch_quiet [of doplot mytab subtab tms flagcol paramerr corr]
    by (auto simp: quiet_def list_all_iff)
next
  assume "\<nexists>pre c ds nl. mytab = pre @ CHR ''.'' # c # ds @ nl \<and> kind_letter c
          \<and> list_all is_digit ds \<and> (nl = [] \<or> nl = [newline])"
  then have "search mytab = None" unfolding search_None_iff .
  then show d: "determine_table mytab = PyInt (- 1)" by (simp add: determine_table_def)
  then show "py_in ''.G'' (determine_table mytab) = Inl TypeError" by simp
  assume "doplot = ''ap'' \<or> doplot = ''ri''"
  with d show "dispatch doplot mytab subtab tms flagcol paramerr corr = ([], Inl (Raised TypeError))"
    by (rule dispatch_no_match)
qed

theorem invalid_table_unreachable_witness:
  "(\<nexists>pre c ds nl. ''x.Ga'' = pre @ CHR ''.'' # c # ds @ nl \<and> kind_letter c
          \<and> list_all is_digit ds \<and> (nl = [] \<or> nl = [newline]))
   \<and> determine_table ''x.Ga'' = PyInt (- 1)
   \<and> py_in ''.G'' (determine_table ''x.Ga'') = Inl TypeError
   \<and> dispatch ''ap'' ''x.Ga'' example_table [] (from_lists [[[False]]]) (from_lists [[[flt 1]]]) 0
       = ([], Inl (Raised TypeError))"
proof -
  have "search ''x.Ga'' = None"
    by (simp add: kind_letter_def is_digit_def newline_def)
  then have h: "\<nexists>pre c ds nl. ''x.Ga'' = pre @ CHR ''.'' # c # ds @ nl \<and> kind_letter c
          \<and> list_all is_digit ds \<and> (nl = [] \<or> nl = [newline])"
    unfolding search_None_iff .
  have m: "''ap'' = ''ap'' \<or> ''ap'' = ''ri''" by simp
  note T = invalid_table_unreachable [of "''ap''" "''x.Ga''"
      example_table "[]" "from_lists [[[False]]]" "from_lists [[[flt 1]]]" 0]
  note c = conjunct2 [OF T, THEN mp, OF h]
  from c have c1: "determine_table ''x.Ga'' = PyInt (- 1)"
    and c2: "py_in ''.G'' (determine_table ''x.Ga'') = Inl TypeError"
    and c3: "dispatch ''ap'' ''x.Ga'' example_table [] (from_lists [[[False]]]) (from_lists [[[flt 1]]]) 0
       = ([], Inl (Raised TypeError))"
    using m by blast+
  from h c1 c2 c3 show ?thesis by (intro conjI)
qed

section \<open>Properties of the loop and of the whole run\<close>

lemma snd_then_do:
  "snd (then_do m f) = (case snd m of Inl e \<Rightarrow> Inl e | Inr x \<Rightarrow> snd (f x))"
  by (cases m; cases "snd m") (auto simp: then_do_def split: prod.split)

lemma fst_then_do:
  "fst (then_do m f) = fst m @ (case snd m of Inl e \<Rightarrow> [] | Inr x \<Rightarrow> fst (f x))"
  by (cases m; cases "snd m") (auto simp: then_do_def split: prod.split)

lemma snd_basic:
  "snd (ret x) = Inr x" "snd (stop e) = Inl e" "snd (emit ev) = Inr ()"
  "snd (lift r) = (case r of Inl e \<Rightarrow> Inl (Raised e) | Inr x \<Rightarrow> Inr x)"
  by (simp_all add: ret_def stop_def emit_def lift_def split: sum.split)

lemma fst_basic:
  "fst (ret x) = []" "fst (stop e) = []" "fst (emit ev) = [ev]" "fst (lift r) = []"
  by (simp_all add: ret_def stop_def emit_def lift_def split: sum.split)

lemma snd_getcol:
  "snd (subtab_getcol present col name subtab) =
     (if present then Inr (map col (rows subtab)) else Inl (Raised RuntimeError))"
  by (simp add: subtab_getcol_def snd_then_do snd_basic)

lemma fst_getcol: "fst (subtab_getcol present col name subtab) = [SubGetCol name]"
  by (simp add: subtab_getcol_def fst_then_do fst_basic snd_basic)

lemma snd_getarr:
  "snd (subtab_getarr present cells col name subtab) =
     (if present
      then Inr \<lparr>shape = (length (rows subtab), fst cells, snd cells),
                cell = (\<lambda>t. col (rows subtab ! t))\<rparr>
      else Inl (Raised RuntimeError))"
  by (simp add: subtab_getarr_def snd_then_do snd_basic)

lemma fst_getarr: "fst (subtab_getarr present cells col name subtab) = [SubGetCol name]"
  by (simp add: subtab_getarr_def fst_then_do fst_basic snd_basic)

lemma py_index_first: "py_index xs 0 = Inr v \<Longrightarrow> xs \<noteq> []"
  by (auto simp: py_index_def)

lemma plot_antenna_items:
  assumes "snd (plot_antenna doplot field corr mytab tt antnames st ant) = Inr st'"
  shows "legend_items_ax1 st' =
           legend_items_ax1 st @ [\<lparr>label = ''A'' @ py_str ant, visible = \<not> ant > 0\<rparr>]"
    and "legend_items_ax2 st' =
           legend_items_ax2 st @ [\<lparr>label = ''A'' @ py_str ant, visible = \<not> ant > 0\<rparr>]"
    and "\<exists>r \<in> set (rows tt). ANTENNA1 r = ant"
proof -
  let ?sub = "query tt ant field"
  from assms obtain first where f: "py_index (map TIME (rows ?sub)) 0 = Inr first"
    by (auto simp: plot_antenna_def Let_def snd_then_do snd_basic snd_getcol snd_getarr
        split: sum.splits)
  then have "rows ?sub \<noteq> []" using py_index_first by fastforce
  then obtain r where "r \<in> set (rows ?sub)" by (cases "rows ?sub") auto
  then show "\<exists>r \<in> set (rows tt). ANTENNA1 r = ant" by (auto simp: query_def)
  from assms show "legend_items_ax1 st' =
           legend_items_ax1 st @ [\<lparr>label = ''A'' @ py_str ant, visible = \<not> ant > 0\<rparr>]"
    by (auto simp: plot_antenna_def Let_def snd_then_do snd_basic snd_getcol snd_getarr
        split: sum.splits)
  from assms show "legend_items_ax2 st' =
           legend_items_ax2 st @ [\<lparr>label = ''A'' @ py_str ant, visible = \<not> ant > 0\<rparr>]"
    by (auto simp: plot_antenna_def Let_def snd_then_do snd_basic snd_getcol snd_getarr
        split: sum.splits)
qed

lemma antenna_loop_items:
  "snd (antenna_loop doplot field corr mytab tt antnames st plotants) = Inr st' \<Longrightarrow>
   legend_items_ax1 st' =
     legend_items_ax1 st @ map (\<lambda>ant. \<lparr>label = ''A'' @ py_str ant, visible = \<not> ant > 0\<rparr>) plotants
   \<and> legend_items_ax2 st' =
     legend_items_ax2 st @ map (\<lambda>ant. \<lparr>label = ''A'' @ py_str ant, visible = \<not> ant > 0\<rparr>) plotants
   \<and> (\<forall>ant \<in> set plotants. \<exists>r \<in> set (rows tt). ANTENNA1 r = ant)"
proof (induction plotants arbitrary: st)
  case Nil
  then show ?case by (simp add: snd_basic)
next
  case (Cons ant plotants)
  from Cons.prems obtain st1 where
    one: "snd (plot_antenna doplot field corr mytab tt antnames st ant) = Inr st1"
    and rest: "snd (antenna_loop doplot field corr mytab tt antnames st1 plotants) = Inr st'"
    by (auto simp: snd_then_do split: sum.splits)
  note a = plot_antenna_items [OF one]
  note b = Cons.IH [OF rest]
  from a b show ?case by simp
qed

lemmas run_defs = then_do_def emit_def ret_def stop_def lift_def subtab_getcol_def
  subtab_getarr_def

lemma dispatch_ri_K:
  assumes "determine_table mytab = PyStr (''.K'' @ ds)" "list_all is_digit ds"
  shows "dispatch ''ri'' mytab subtab tms flagcol paramerr corr =
           ([Print ''No complex values to plot''], Inl (SysExit None))"
proof -
  have k: "CHR ''K'' \<in> {CHR ''G'', CHR ''K'', CHR ''B''}" by simp
  have t: "determine_table mytab = PyStr (CHR ''.'' # CHR ''K'' # ds)" using assms(1) by simp
  note tag = py_in_tag [OF k assms(2)]
  show ?thesis
    by (simp add: dispatch_def t tag then_do_lift del: py_in.simps)
      (simp add: then_do_def emit_def stop_def)
qed

lemma plot_antenna_ri_K:
  assumes "determine_table mytab = PyStr (''.K'' @ ds)" "list_all is_digit ds"
  shows "\<exists>e. snd (plot_antenna ''ri'' field corr mytab tt antnames st ant) = Inl e"
  by (simp add: plot_antenna_def Let_def snd_then_do snd_basic snd_getcol snd_getarr
      dispatch_ri_K [OF assms] split: sum.split)

lemma plot_antenna_ri_K_rows:
  assumes "determine_table mytab = PyStr (''.K'' @ ds)" "list_all is_digit ds"
    and "rows (query tt ant field) \<noteq> []"
  shows "plot_antenna ''ri'' field corr mytab tt antnames st ant =
           ([Query ant field, SubGetCol ''TIME'', SubGetCol ''FLAG'', SubGetCol ''PARAMERR'',
             Print ''No complex values to plot''], Inl (SysExit None))"
proof -
  obtain r rest where "rows (query tt ant field) = r # rest"
    using assms(3) by (cases "rows (query tt ant field)") auto
  then have "py_index (map TIME (rows (query tt ant field))) 0 = Inr (TIME r)"
    by (simp add: py_index_def)
  then show ?thesis
    by (simp add: plot_antenna_def Let_def dispatch_ri_K [OF assms(1,2)] subtab_getcol_def
        subtab_getarr_def then_do_def emit_def ret_def lift_def)
qed

lemma for_each_length: "for_each g xs = Inr ys \<Longrightarrow> length ys = length xs"
  by (induction xs arbitrary: ys) (auto simp: and_then_def split: sum.splits)

lemma select_antennas_nonempty:
  assumes "snd (select_antennas p ants) = Inr plotants" "ants \<noteq> []"
  shows "plotants \<noteq> []"
proof (cases p)
  case None
  with assms show ?thesis by (simp add: select_antennas_def snd_basic)
next
  case (Some s)
  with assms obtain kept where "length kept \<noteq> 0" "for_each to_int64 kept = Inr plotants"
    by (auto simp: select_antennas_def snd_then_do snd_basic split: if_splits sum.splits)
  then show ?thesis using for_each_length by fastforce
qed

lemma set_np_unique: "set (np_unique xs) = set xs"
  by (simp add: np_unique_def)

lemma quiet_filter_loop:
  "(\<And>s. \<not> bad (Print s)) \<Longrightarrow> list_all (\<lambda>e. \<not> bad e) tr \<Longrightarrow>
   quiet bad (filter_loop ants i plotants tr)"
proof (induction ants i plotants tr rule: filter_loop.induct)
  case (1 ants i plotants tr)
  show ?case
  proof (cases "i < length plotants")
    case False
    with "1.prems" show ?thesis by (simp add: quiet_def)
  next
    case True
    show ?thesis
    proof (cases "py_int (plotants ! i)")
      case (Inl e)
      with True "1.prems" show ?thesis by (simp add: quiet_def)
    next
      case (Inr v)
      show ?thesis
      proof (cases "v \<in> set ants")
        case True
        with \<open>i < length plotants\<close> Inr "1.IH"(2) "1.prems" show ?thesis by simp
      next
        case False
        with \<open>i < length plotants\<close> Inr "1.IH"(1) "1.prems" show ?thesis by simp
      qed
    qed
  qed
qed

lemma quiet_select_antennas:
  "(\<And>s. \<not> bad (Print s)) \<Longrightarrow> quiet bad (select_antennas p ants)"
  by (cases p)
    (simp_all add: select_antennas_def quiet_then_do quiet_basic quiet_filter_loop
      del: filter_loop.simps)

lemma main_setup_ok:
  assumes "snd (main_setup cfg w) = Inr (mytab, png, tt, plotants, names)"
  shows "mytab = rstrip (CHR ''/'') (cfg_args cfg ! 0)"
    and "plotants \<noteq> []"
    and "OpenTable mytab \<in> set (fst (main_setup cfg w))"
proof -
  let ?mytab = "rstrip (CHR ''/'') (cfg_args cfg ! 0)"
  from assms obtain t where tab: "table_at w ?mytab = Some t"
    and field: "cfg_field cfg \<in> set (np_unique (map FIELD_ID (rows t)))"
    and sel: "snd (select_antennas (cfg_plotants cfg) (np_unique (map ANTENNA1 (rows t))))
              = Inr plotants"
    and my: "mytab = ?mytab"
    by (auto simp: main_setup_def Let_def snd_then_do snd_basic fatal_def
        split: if_splits option.splits sum.splits)
  show "mytab = ?mytab" by (rule my)
  from field have "rows t \<noteq> []" by (auto simp: set_np_unique)
  then have "set (np_unique (map ANTENNA1 (rows t))) \<noteq> {}" by (simp add: set_np_unique)
  then have "np_unique (map ANTENNA1 (rows t)) \<noteq> []" by auto
  with sel show "plotants \<noteq> []" by (rule select_antennas_nonempty)
  from assms show "OpenTable mytab \<in> set (fst (main_setup cfg w))"
    unfolding my
    by (auto simp: main_setup_def Let_def snd_then_do fst_then_do snd_basic fst_basic fatal_def
        split: if_splits option.splits sum.splits)
qed

lemma quiet_main_setup: "quiet is_export (main_setup cfg w)"
  by (simp add: main_setup_def Let_def quiet_then_do quiet_basic fatal_def
      quiet_select_antennas split: option.split)

lemma quiet_dispatch_gen:
  assumes "\<And>name. \<not> bad (SubGetCol name)" "\<And>s. \<not> bad (Print s)"
  shows "quiet bad (dispatch doplot mytab subtab tms flagcol paramerr corr)"
  by (simp add: dispatch_def invalid_table_def quiet_then_do quiet_basic quiet_prepare
      quiet_getcol quiet_getarr assms split: prod.split)

lemma quiet_plot_antenna:
  "quiet is_export (plot_antenna doplot field corr mytab tt antnames st ant)"
  by (simp add: plot_antenna_def Let_def quiet_then_do quiet_basic quiet_getcol quiet_getarr
      quiet_dispatch_gen antlabel_def split: option.split)

lemma quiet_antenna_loop:
  "quiet is_export (antenna_loop doplot field corr mytab tt antnames st plotants)"
  by (induction plotants arbitrary: st) (simp_all add: quiet_then_do quiet_basic quiet_plot_antenna)

lemma antenna_loop_ri_K:
  assumes "determine_table mytab = PyStr (''.K'' @ ds)" "list_all is_digit ds" "plotants \<noteq> []"
  shows "\<exists>e. snd (antenna_loop ''ri'' field corr mytab tt antnames st plotants) = Inl e"
proof -
  from assms(3) obtain ant rest where p: "plotants = ant # rest" by (cases plotants) auto
  from plot_antenna_ri_K [OF assms(1,2)] obtain e
    where "snd (plot_antenna ''ri'' field corr mytab tt antnames st ant) = Inl e" by blast
  then show ?thesis by (simp add: p snd_then_do)
qed

text \<open>
  Claim C3, amended. Every run in mode \<^verbatim>\<open>'ri'\<close> on a delay-type table aborts, and no image is
  exported. When the arguments, the table, the field and the antenna selection are
  accepted and the first selected antenna has rows for the field, the run opens the table,
  issues the query for that antenna, reads its columns, prints
  \<^verbatim>\<open>No complex values to plot\<close> and stops there, in the first iteration of the loop.
\<close>

theorem ri_on_delay_table:
  assumes "cfg_doplot cfg = ''ri''"
    and "determine_table (rstrip (CHR ''/'') (cfg_args cfg ! 0)) = PyStr (''.K'' @ ds)"
    and "list_all is_digit ds"
  shows "(\<exists>e. snd (main cfg w) = Inl e)
   \<and> quiet is_export (main cfg w)
   \<and> (snd (main_setup cfg w) = Inr (mytab, png, tt, ant # rest, names)
        \<and> rows (query tt ant (cfg_field cfg)) \<noteq> [] \<longrightarrow>
      OpenTable mytab \<in> set (fst (main_setup cfg w))
      \<and> fst (main cfg w) =
          fst (main_setup cfg w) @
          [Query ant (cfg_field cfg), SubGetCol ''TIME'', SubGetCol ''FLAG'',
           SubGetCol ''PARAMERR'', Print ''No complex values to plot''])"
proof (intro conjI impI)
  show aborts: "\<exists>e. snd (main cfg w) = Inl e"
  proof (cases "snd (main_setup cfg w)")
    case (Inl e)
    then show ?thesis by (simp add: main_def snd_then_do)
  next
    case (Inr x)
    obtain m p t pl n where x: "x = (m, p, t, pl, n)" by (cases x) auto
    note ok = main_setup_ok [OF Inr [unfolded x]]
    from antenna_loop_ri_K [OF assms(2) [folded ok(1)] assms(3) ok(2)]
    obtain e where "snd (antenna_loop ''ri'' (cfg_field cfg) (cfg_corr cfg) m t n initial_state pl)
                    = Inl e" by blast
    then show ?thesis by (simp add: main_def snd_then_do Inr x assms(1))
  qed
  show "quiet is_export (main cfg w)"
  proof (cases "snd (main_setup cfg w)")
    case (Inl e)
    then show ?thesis by (simp add: main_def quiet_then_do quiet_main_setup)
  next
    case (Inr x)
    obtain m p t pl n where x: "x = (m, p, t, pl, n)" by (cases x) auto
    note ok = main_setup_ok [OF Inr [unfolded x]]
    from antenna_loop_ri_K [OF assms(2) [folded ok(1)] assms(3) ok(2)]
    obtain e where "snd (antenna_loop ''ri'' (cfg_field cfg) (cfg_corr cfg) m t n initial_state pl)
                    = Inl e" by blast
    then show ?thesis
      by (simp add: main_def quiet_then_do quiet_main_setup quiet_antenna_loop Inr x assms(1))
  qed
next
  assume h: "snd (main_setup cfg w) = Inr (mytab, png, tt, ant # rest, names)
             \<and> rows (query tt ant (cfg_field cfg)) \<noteq> []"
  then have s: "snd (main_setup cfg w) = Inr (mytab, png, tt, ant # rest, names)"
    and r: "rows (query tt ant (cfg_field cfg)) \<noteq> []" by simp_all
  note ok = main_setup_ok [OF s]
  show "OpenTable mytab \<in> set (fst (main_setup cfg w))" by (rule ok(3))
  note one = plot_antenna_ri_K_rows [OF assms(2) [folded ok(1)] assms(3) r,
      of "cfg_corr cfg" names initial_state]
  show "fst (main cfg w) =
          fst (main_setup cfg w) @
          [Query ant (cfg_field cfg), SubGetCol ''TIME'', SubGetCol ''FLAG'',
           SubGetCol ''PARAMERR'', Print ''No complex values to plot'']"
    by (simp add: main_def fst_then_do snd_then_do s assms(1) one)
qed

lemma tagK: "determine_table ''x.K'' = PyStr ''.K''"
  by (simp add: determine_table_def upper_def upper_char_def is_digit_def kind_letter_def newline_def)

lemma example_unique:
  "np_unique (map ANTENNA1 (rows example_table)) = [1, 2]"
  "np_unique (map FIELD_ID (rows example_table)) = [0]"
  by (simp_all add: example_table_def example_rows_def np_unique_def)

lemma example_setup:
  "main_setup (example_config mode) example_world =
     (if mode = ''ap'' \<or> mode = ''ri''
      then ([OutputFile (''plot_x.K_corr0_'' @ mode @ ''_field0.html''), OpenTable ''x.K'',
             GetCol ''ANTENNA1'', GetCol ''FIELD_ID'', GetCol ''FLAG''],
            Inr (''x.K'', ''plot_x.K_corr0_'' @ mode @ ''_field0'', example_table, [1, 2], None))
      else ([OutputFile (''plot_x.K_corr0_'' @ mode @ ''_field0.html''),
             Print ''Plot selection must be either ap (amp and phase) or ri (real and imag)''],
            Inl (SysExit (Some (- 1)))))"
  by (simp add: main_setup_def example_config_def example_world_def example_unique Let_def
      rstrip_def py_str_def select_antennas_def then_do_def emit_def ret_def fatal_def stop_def)

text \<open>
  The claim as stated puts the abort before any table query and makes the termination
  non-zero. On the example table the query for antenna 1 is issued before the message, and
  the run ends with \<^verbatim>\<open>sys.exit()\<close>, whose status is 0.
\<close>

theorem ri_on_delay_table_counterexample:
  "main (example_config ''ri'') example_world =
     ([OutputFile ''plot_x.K_corr0_ri_field0.html'', OpenTable ''x.K'',
       GetCol ''ANTENNA1'', GetCol ''FIELD_ID'', GetCol ''FLAG'',
       Query 1 0, SubGetCol ''TIME'', SubGetCol ''FLAG'', SubGetCol ''PARAMERR'',
       Print ''No complex values to plot''],
      Inl (SysExit None))
   \<and> exit_status (SysExit None) = 0"
proof -
  have one: "plot_antenna ''ri'' 0 0 ''x.K'' example_table None initial_state 1 =
      ([Query 1 0, SubGetCol ''TIME'', SubGetCol ''FLAG'', SubGetCol ''PARAMERR'',
        Print ''No complex values to plot''], Inl (SysExit None))"
    by (simp add: example_table_def example_rows_def query_def plot_antenna_def dispatch_def
        tagK then_do_def emit_def ret_def stop_def lift_def subtab_getcol_def subtab_getarr_def
        Let_def py_index_def)
  show ?thesis
    unfolding main_def example_setup
    by (simp add: example_config_def one then_do_def)
qed

theorem ri_on_delay_table_witness:
  "cfg_doplot (example_config ''ri'') = ''ri''
   \<and> determine_table (rstrip (CHR ''/'') (cfg_args (example_config ''ri'') ! 0)) = PyStr (''.K'' @ [])
   \<and> list_all is_digit []
   \<and> snd (main_setup (example_config ''ri'') example_world) =
        Inr (''x.K'', ''plot_x.K_corr0_ri_field0'', example_table, 1 # [2], None)
   \<and> rows (query example_table 1 (cfg_field (example_config ''ri''))) \<noteq> []
   \<and> (\<exists>e. snd (main (example_config ''ri'') example_world) = Inl e)
   \<and> quiet is_export (main (example_config ''ri'') example_world)
   \<and> OpenTable ''x.K'' \<in> set (fst (main_setup (example_config ''ri'') example_world))
   \<and> fst (main (example_config ''ri'') example_world) =
        fst (main_setup (example_config ''ri'') example_world) @
        [Query 1 0, SubGetCol ''TIME'', SubGetCol ''FLAG'', SubGetCol ''PARAMERR'',
         Print ''No complex values to plot'']"
proof -
  let ?cfg = "example_config ''ri''"
  have h1: "cfg_doplot ?cfg = ''ri''" by (simp add: example_config_def)
  have h2: "determine_table (rstrip (CHR ''/'') (cfg_args ?cfg ! 0)) = PyStr (''.K'' @ [])"
    by (simp add: example_config_def rstrip_def tagK)
  have h3: "list_all is_digit []" by simp
  have h4: "snd (main_setup ?cfg example_world) =
        Inr (''x.K'', ''plot_x.K_corr0_ri_field0'', example_table, 1 # [2], None)"
    by (simp add: example_setup)
  have h5: "rows (query example_table 1 (cfg_field ?cfg)) \<noteq> []"
    by (simp add: example_config_def example_table_def example_rows_def query_def)
  note T = ri_on_delay_table [OF h1 h2 h3, of example_world "''x.K''"
      "''plot_x.K_corr0_ri_field0''" example_table 1 "[2]" None]
  note c = conjunct2 [OF conjunct2 [OF T], THEN mp, OF conjI [OF h4 h5]]
  have f: "cfg_field ?cfg = 0" by (simp add: example_config_def)
  note c' = c [unfolded f]
  from h1 h2 h3 h4 h5 conjunct1 [OF T] conjunct1 [OF conjunct2 [OF T]]
    conjunct1 [OF c'] conjunct2 [OF c']
  show ?thesis by (intro conjI)
qed

lemmas loop_defs = example_table_def example_table_neg_def example_rows_def query_def
  plot_antenna_def dispatch_def prepare_K_def
  data_prep_K_def run_defs Let_def py_index_def masked_array_def
  ma_index_rows_def index_rows_def valid_index_def position_def and_then_def int_not_def
  update_extents_def np_min_def
  np_max_def reduce_def lower_def raise_to_def antlabel_def py_str_def initial_state_def
  initial_extents_def upt_rec

lemma example_loop:
  "antenna_loop ''ap'' 0 0 ''x.K'' example_table None initial_state [1, 2] =
    ([Query 1 0, SubGetCol ''TIME'', SubGetCol ''FLAG'',
      SubGetCol ''PARAMERR'', SubGetCol ''ANTENNA1'', SubGetCol ''FPARAM'',
      SubClose, Query 2 0, SubGetCol ''TIME'', SubGetCol ''FLAG'',
      SubGetCol ''PARAMERR'', SubGetCol ''ANTENNA1'', SubGetCol ''FPARAM'',
      SubClose],
     Inr \<lparr>legend_items_ax1 =
            [\<lparr>label = ''A1'', visible = False\<rparr>, \<lparr>label = ''A2'', visible = False\<rparr>],
          legend_items_ax2 =
            [\<lparr>label = ''A1'', visible = False\<rparr>, \<lparr>label = ''A2'', visible = False\<rparr>],
          legend_items_err_ax1 =
            [\<lparr>label = ''E1'', visible = False\<rparr>, \<lparr>label = ''E2'', visible = False\<rparr>],
          legend_items_err_ax2 = [''E1'', ''E2''],
          ext = \<lparr>xmin = 0, xmax = 0, ylmin = 4, ylmax = 6, yumin = 3, yumax = 5\<rparr>,
          labels = Some (''Antenna'', ''Amplitude'', ''Phase [Deg]'')\<rparr>)"
  by (simp add: loop_defs tagK)

lemma example_cfg:
    "cfg_doplot (example_config ''ap'') = ''ap''" "cfg_field (example_config ''ap'') = 0"
    "cfg_corr (example_config ''ap'') = 0"
    "cfg_ranges (example_config ''ap'') = \<lparr>opt_t0 = None, opt_t1 = None, opt_yu0 = None,
        opt_yu1 = None, opt_yl0 = None, opt_yl1 = None\<rparr>"
    by (simp_all add: example_config_def)

lemma example_main: "main (example_config ''ap'') example_world =
     then_do ([OutputFile ''plot_x.K_corr0_ap_field0.html'', OpenTable ''x.K'',
               GetCol ''ANTENNA1'', GetCol ''FIELD_ID'', GetCol ''FLAG''],
              Inr (''x.K'', ''plot_x.K_corr0_ap_field0'', example_table, [1, 2], None))
       (\<lambda>(mytab, pngname, tt, plotants, antnames).
          then_do (antenna_loop ''ap'' 0 0 mytab tt antnames initial_state plotants)
            (main_finish (example_config ''ap'') pngname (length plotants)))"
    unfolding main_def example_setup example_cfg by simp

text \<open>
  A complete run on the example table in mode \<^verbatim>\<open>'ap'\<close>: the events, and the result after the
  final loop, which makes every data glyph visible before the export.
\<close>

lemma example_render:
  "main (example_config ''ap'') example_world =
     ([OutputFile ''plot_x.K_corr0_ap_field0.html'', OpenTable ''x.K'',
      GetCol ''ANTENNA1'', GetCol ''FIELD_ID'', GetCol ''FLAG'',
      Query 1 0, SubGetCol ''TIME'', SubGetCol ''FLAG'', SubGetCol ''PARAMERR'',
      SubGetCol ''ANTENNA1'', SubGetCol ''FPARAM'', SubClose,
      Query 2 0, SubGetCol ''TIME'', SubGetCol ''FLAG'', SubGetCol ''PARAMERR'',
      SubGetCol ''ANTENNA1'', SubGetCol ''FPARAM'', SubClose,
      CloseTable, ExportSvgs ''%s_%s'', ExportSvgs ''%s_%s'',
      Print ''Rendered: plot_x.K_corr0_ap_field0''],
      Inr \<lparr>r_items_ax1 =
            [\<lparr>label = ''A1'', visible = True\<rparr>, \<lparr>label = ''A2'', visible = True\<rparr>],
          r_items_ax2 =
            [\<lparr>label = ''A1'', visible = True\<rparr>, \<lparr>label = ''A2'', visible = True\<rparr>],
          r_items_err_ax1 =
            [\<lparr>label = ''E1'', visible = False\<rparr>, \<lparr>label = ''E2'', visible = False\<rparr>],
          r_items_err_ax2 = [''E1'', ''E2''],
          r_batches_ax1 =
            [[\<lparr>label = ''A1'', visible = True\<rparr>, \<lparr>label = ''A2'', visible = True\<rparr>]],
          r_batches_ax2 =
            [[\<lparr>label = ''A1'', visible = True\<rparr>, \<lparr>label = ''A2'', visible = True\<rparr>]],
          r_batches_ax1_err =
            [[\<lparr>label = ''E1'', visible = False\<rparr>, \<lparr>label = ''E2'', visible = False\<rparr>]],
          r_batches_ax2_err = [[''E1'', ''E2'']],
          r_ranges = \<lparr>xmin = - 400, xmax = 400, ylmin = 3.6, ylmax = 6.6,
                       yumin = 2.7, yumax = 5.5\<rparr>,
          r_titles = (''Amplitude vs Antenna'', ''Phase [Deg] vs Antenna''),
          r_ant_labs = [''A0 - A15''],
          r_view = \<lparr>antsel_active = False, antsel_label = ''Select All Antennas'',
                     batchsel_active = [], glyph1 = [True, True], glyph2 = [True, True]\<rparr>\<rparr>)"
  unfolding example_main
  by (simp add: example_loop example_cfg main_finish_def then_do_def emit_def ret_def
      Let_def finalize_ranges_def read_bounds_def option_float_def initial_view_def show_all_def
      make_batches_map num_legend_objs_div ant_labs_def BATCH_SIZE_def py_str_def
      del: antenna_loop.simps)

text \<open>The loop on the table whose antennas are \<open>-1\<close> and 2.\<close>

lemma example_loop_neg:
  "antenna_loop ''ap'' 0 0 ''x.K'' example_table_neg None initial_state [- 1, 2] =
    ([Query (- 1) 0, SubGetCol ''TIME'', SubGetCol ''FLAG'',
      SubGetCol ''PARAMERR'', SubGetCol ''ANTENNA1'', SubGetCol ''FPARAM'',
      SubClose, Query 2 0, SubGetCol ''TIME'', SubGetCol ''FLAG'',
      SubGetCol ''PARAMERR'', SubGetCol ''ANTENNA1'', SubGetCol ''FPARAM'',
      SubClose],
     Inr \<lparr>legend_items_ax1 =
            [\<lparr>label = ''A-1'', visible = True\<rparr>, \<lparr>label = ''A2'', visible = False\<rparr>],
          legend_items_ax2 =
            [\<lparr>label = ''A-1'', visible = True\<rparr>, \<lparr>label = ''A2'', visible = False\<rparr>],
          legend_items_err_ax1 =
            [\<lparr>label = ''E-1'', visible = False\<rparr>, \<lparr>label = ''E2'', visible = False\<rparr>],
          legend_items_err_ax2 = [''E-1'', ''E2''],
          ext = \<lparr>xmin = 0, xmax = 0, ylmin = 4, ylmax = 6, yumin = 3, yumax = 5\<rparr>,
          labels = Some (''Antenna'', ''Amplitude'', ''Phase [Deg]'')\<rparr>)"
  by (simp add: loop_defs tagK)

lemma main_setup_png:
  assumes "snd (main_setup cfg w) = Inr (mytab, png, tt, plotants, names)"
  shows "png \<noteq> []"
  using assms
  by (auto simp: main_setup_def Let_def snd_then_do snd_basic fatal_def
        split: if_splits option.splits sum.splits)

lemma main_finish_items:
  assumes "snd (main_finish cfg png n st) = Inr r" "png \<noteq> []"
  shows "r_items_ax1 r = show_all (legend_items_ax1 st)"
    and "r_items_ax2 r = show_all (legend_items_ax2 st)"
    and "ExportSvgs ''%s_%s'' \<in> set (fst (main_finish cfg png n st))"
  using assms
  by (auto simp: main_finish_def Let_def snd_then_do fst_then_do snd_basic fst_basic
        split: if_splits option.splits sum.splits prod.splits)

lemma show_all_items:
  "show_all (map (\<lambda>ant. \<lparr>label = f ant, visible = g ant\<rparr>) xs)
     = map (\<lambda>ant. \<lparr>label = f ant, visible = True\<rparr>) xs"
  by (simp add: show_all_def)

lemma main_items:
  assumes "snd (main_setup cfg w) = Inr (tab, png, t, sel, names)"
    and "snd (main cfg w) = Inr r"
  shows "r_items_ax1 r = map (\<lambda>ant. \<lparr>label = ''A'' @ py_str ant, visible = True\<rparr>) sel"
    and "r_items_ax2 r = map (\<lambda>ant. \<lparr>label = ''A'' @ py_str ant, visible = True\<rparr>) sel"
    and "ExportSvgs ''%s_%s'' \<in> set (fst (main cfg w))"
proof -
  from assms obtain st where
    loop: "snd (antenna_loop (cfg_doplot cfg) (cfg_field cfg) (cfg_corr cfg) tab t names
             initial_state sel) = Inr st"
    and fin: "snd (main_finish cfg png (length sel) st) = Inr r"
    by (auto simp: main_def snd_then_do split: sum.splits)
  note png = main_setup_png [OF assms(1)]
  note items = antenna_loop_items [OF loop]
  note f = main_finish_items [OF fin png]
  from items f(1) show "r_items_ax1 r =
      map (\<lambda>ant. \<lparr>label = ''A'' @ py_str ant, visible = True\<rparr>) sel"
    by (simp add: initial_state_def show_all_items)
  from items f(2) show "r_items_ax2 r =
      map (\<lambda>ant. \<lparr>label = ''A'' @ py_str ant, visible = True\<rparr>) sel"
    by (simp add: initial_state_def show_all_items)
  from f(3) show "ExportSvgs ''%s_%s'' \<in> set (fst (main cfg w))"
    by (simp add: main_def fst_then_do assms(1) loop)
qed

text \<open>
  Claim C10, amended. The data glyphs are created with a visibility that keys on the
  antenna ID, not on the rank in the selection: when the loop over the selected antennas
  completes, the data glyph of an antenna on both panels is hidden exactly when its ID is
  greater than 0 (an antenna with the ID 0 or a negative ID is created visible), so for a
  selection whose IDs are all greater than 0 every data glyph is hidden at that point.
  Every run that completes then makes every data glyph visible before it exports the two
  images, its only rendering: after rendering there is one data glyph for every selected
  antenna on each panel, and all of them are visible.
\<close>

theorem glyph_visibility:
  "(snd (antenna_loop doplot field corr mytab tt antnames initial_state plotants) = Inr st \<longrightarrow>
      map visible (legend_items_ax1 st) = map (\<lambda>ant. \<not> ant > 0) plotants
      \<and> map visible (legend_items_ax2 st) = map (\<lambda>ant. \<not> ant > 0) plotants
      \<and> (list_all (\<lambda>ant. ant > 0) plotants \<longrightarrow>
           list_all (\<lambda>it. \<not> visible it) (legend_items_ax1 st @ legend_items_ax2 st)))
   \<and> (snd (main_setup cfg w) = Inr (tab, png, t, sel, names) \<and> snd (main cfg w) = Inr r \<longrightarrow>
      r_items_ax1 r = map (\<lambda>ant. \<lparr>label = ''A'' @ py_str ant, visible = True\<rparr>) sel
      \<and> r_items_ax2 r = map (\<lambda>ant. \<lparr>label = ''A'' @ py_str ant, visible = True\<rparr>) sel
      \<and> ExportSvgs ''%s_%s'' \<in> set (fst (main cfg w)))"
proof (intro conjI impI)
  assume loop: "snd (antenna_loop doplot field corr mytab tt antnames initial_state plotants)
      = Inr st"
  note items = antenna_loop_items [OF loop]
  from items show v1: "map visible (legend_items_ax1 st) = map (\<lambda>ant. \<not> ant > 0) plotants"
    by (simp add: initial_state_def comp_def)
  from items show v2: "map visible (legend_items_ax2 st) = map (\<lambda>ant. \<not> ant > 0) plotants"
    by (simp add: initial_state_def comp_def)
  assume "list_all (\<lambda>ant. ant > 0) plotants"
  with items show "list_all (\<lambda>it. \<not> visible it) (legend_items_ax1 st @ legend_items_ax2 st)"
    by (auto simp: initial_state_def list_all_iff)
next
  assume h: "snd (main_setup cfg w) = Inr (tab, png, t, sel, names) \<and> snd (main cfg w) = Inr r"
  note m = main_items [OF conjunct1 [OF h] conjunct2 [OF h]]
  show "r_items_ax1 r = map (\<lambda>ant. \<lparr>label = ''A'' @ py_str ant, visible = True\<rparr>) sel"
    by (rule m(1))
  show "r_items_ax2 r = map (\<lambda>ant. \<lparr>label = ''A'' @ py_str ant, visible = True\<rparr>) sel"
    by (rule m(2))
  show "ExportSvgs ''%s_%s'' \<in> set (fst (main cfg w))"
    by (rule m(3))
qed

theorem glyph_visibility_witness:
  "snd (antenna_loop ''ap'' 0 0 ''x.K'' example_table None initial_state [1, 2]) =
     Inr \<lparr>legend_items_ax1 =
            [\<lparr>label = ''A1'', visible = False\<rparr>, \<lparr>label = ''A2'', visible = False\<rparr>],
          legend_items_ax2 =
            [\<lparr>label = ''A1'', visible = False\<rparr>, \<lparr>label = ''A2'', visible = False\<rparr>],
          legend_items_err_ax1 =
            [\<lparr>label = ''E1'', visible = False\<rparr>, \<lparr>label = ''E2'', visible = False\<rparr>],
          legend_items_err_ax2 = [''E1'', ''E2''],
          ext = \<lparr>xmin = 0, xmax = 0, ylmin = 4, ylmax = 6, yumin = 3, yumax = 5\<rparr>,
          labels = Some (''Antenna'', ''Amplitude'', ''Phase [Deg]'')\<rparr>
   \<and> list_all (\<lambda>ant. ant > 0) [1, 2::int]
   \<and> map visible (legend_items_ax1 \<lparr>legend_items_ax1 =
            [\<lparr>label = ''A1'', visible = False\<rparr>, \<lparr>label = ''A2'', visible = False\<rparr>],
          legend_items_ax2 =
            [\<lparr>label = ''A1'', visible = False\<rparr>, \<lparr>label = ''A2'', visible = False\<rparr>],
          legend_items_err_ax1 =
            [\<lparr>label = ''E1'', visible = False\<rparr>, \<lparr>label = ''E2'', visible = False\<rparr>],
          legend_items_err_ax2 = [''E1'', ''E2''],
          ext = \<lparr>xmin = 0, xmax = 0, ylmin = 4, ylmax = 6, yumin = 3, yumax = 5\<rparr>,
          labels = Some (''Antenna'', ''Amplitude'', ''Phase [Deg]'')\<rparr>) = [False, False]
   \<and> map visible (legend_items_ax2 \<lparr>legend_items_ax1 =
            [\<lparr>label = ''A1'', visible = False\<rparr>, \<lparr>label = ''A2'', visible = False\<rparr>],
          legend_items_ax2 =
            [\<lparr>label = ''A1'', visible = False\<rparr>, \<lparr>label = ''A2'', visible = False\<rparr>],
          legend_items_err_ax1 =
            [\<lparr>label = ''E1'', visible = False\<rparr>, \<lparr>label = ''E2'', visible = False\<rparr>],
          legend_items_err_ax2 = [''E1'', ''E2''],
          ext = \<lparr>xmin = 0, xmax = 0, ylmin = 4, ylmax = 6, yumin = 3, yumax = 5\<rparr>,
          labels = Some (''Antenna'', ''Amplitude'', ''Phase [Deg]'')\<rparr>) = [False, False]
   \<and> list_all (\<lambda>it. \<not> visible it) (legend_items_ax1 \<lparr>legend_items_ax1 =
            [\<lparr>label = ''A1'', visible = False\<rparr>, \<lparr>label = ''A2'', visible = False\<rparr>],
          legend_items_ax2 =
            [\<lparr>label = ''A1'', visible = False\<rparr>, \<lparr>label = ''A2'', visible = False\<rparr>],
          legend_items_err_ax1 =
            [\<lparr>label = ''E1'', visible = False\<rparr>, \<lparr>label = ''E2'', visible = False\<rparr>],
          legend_items_err_ax2 = [''E1'', ''E2''],
          ext = \<lparr>xmin = 0, xmax = 0, ylmin = 4, ylmax = 6, yumin = 3, yumax = 5\<rparr>,
          labels = Some (''Antenna'', ''Amplitude'', ''Phase [Deg]'')\<rparr> @ legend_items_ax2 \<lparr>legend_items_ax1 =
            [\<lparr>label = ''A1'', visible = False\<rparr>, \<lparr>label = ''A2'', visible = False\<rparr>],
          legend_items_ax2 =
            [\<lparr>label = ''A1'', visible = False\<rparr>, \<lparr>label = ''A2'', visible = False\<rparr>],
          legend_items_err_ax1 =
            [\<lparr>label = ''E1'', visible = False\<rparr>, \<lparr>label = ''E2'', visible = False\<rparr>],
          legend_items_err_ax2 = [''E1'', ''E2''],
          ext = \<lparr>xmin = 0, xmax = 0, ylmin = 4, ylmax = 6, yumin = 3, yumax = 5\<rparr>,
          labels = Some (''Antenna'', ''Amplitude'', ''Phase [Deg]'')\<rparr>)
   \<and> snd (main_setup (example_config ''ap'') example_world) =
        Inr (''x.K'', ''plot_x.K_corr0_ap_field0'', example_table, [1, 2], None)
   \<and> snd (main (example_config ''ap'') example_world) = Inr \<lparr>r_items_ax1 =
            [\<lparr>label = ''A1'', visible = True\<rparr>, \<lparr>label = ''A2'', visible = True\<rparr>],
          r_items_ax2 =
            [\<lparr>label = ''A1'', visible = True\<rparr>, \<lparr>label = ''A2'', visible = True\<rparr>],
          r_items_err_ax1 =
            [\<lparr>label = ''E1'', visible = False\<rparr>, \<lparr>label = ''E2'', visible = False\<rparr>],
          r_items_err_ax2 = [''E1'', ''E2''],
          r_batches_ax1 =
            [[\<lparr>label = ''A1'', visible = True\<rparr>, \<lparr>label = ''A2'', visible = True\<rparr>]],
          r_batches_ax2 =
            [[\<lparr>label = ''A1'', visible = True\<rparr>, \<lparr>label = ''A2'', visible = True\<rparr>]],
          r_batches_ax1_err =
            [[\<lparr>label = ''E1'', visible = False\<rparr>, \<lparr>label = ''E2'', visible = False\<rparr>]],
          r_batches_ax2_err = [[''E1'', ''E2'']],
          r_ranges = \<lparr>xmin = - 400, xmax = 400, ylmin = 3.6, ylmax = 6.6,
                       yumin = 2.7, yumax = 5.5\<rparr>,
          r_titles = (''Amplitude vs Antenna'', ''Phase [Deg] vs Antenna''),
          r_ant_labs = [''A0 - A15''],
          r_view = \<lparr>antsel_active = False, antsel_label = ''Select All Antennas'',
                     batchsel_active = [], glyph1 = [True, True], glyph2 = [True, True]\<rparr>\<rparr>
   \<and> r_items_ax1 \<lparr>r_items_ax1 =
            [\<lparr>label = ''A1'', visible = True\<rparr>, \<lparr>label = ''A2'', visible = True\<rparr>],
          r_items_ax2 =
            [\<lparr>label = ''A1'', visible = True\<rparr>, \<lparr>label = ''A2'', visible = True\<rparr>],
          r_items_err_ax1 =
            [\<lparr>label = ''E1'', visible = False\<rparr>, \<lparr>label = ''E2'', visible = False\<rparr>],
          r_items_err_ax2 = [''E1'', ''E2''],
          r_batches_ax1 =
            [[\<lparr>label = ''A1'', visible = True\<rparr>, \<lparr>label = ''A2'', visible = True\<rparr>]],
          r_batches_ax2 =
            [[\<lparr>label = ''A1'', visible = True\<rparr>, \<lparr>label = ''A2'', visible = True\<rparr>]],
          r_batches_ax1_err =
            [[\<lparr>label = ''E1'', visible = False\<rparr>, \<lparr>label = ''E2'', visible = False\<rparr>]],
          r_batches_ax2_err = [[''E1'', ''E2'']],
          r_ranges = \<lparr>xmin = - 400, xmax = 400, ylmin = 3.6, ylmax = 6.6,
                       yumin = 2.7, yumax = 5.5\<rparr>,
          r_titles = (''Amplitude vs Antenna'', ''Phase [Deg] vs Antenna''),
          r_ant_labs = [''A0 - A15''],
          r_view = \<lparr>antsel_active = False, antsel_label = ''Select All Antennas'',
                     batchsel_active = [], glyph1 = [True, True], glyph2 = [True, True]\<rparr>\<rparr> =
        [\<lparr>label = ''A1'', visible = True\<rparr>, \<lparr>label = ''A2'', visible = True\<rparr>]
   \<and> r_items_ax2 \<lparr>r_items_ax1 =
            [\<lparr>label = ''A1'', visible = True\<rparr>, \<lparr>label = ''A2'', visible = True\<rparr>],
          r_items_ax2 =
            [\<lparr>label = ''A1'', visible = True\<rparr>, \<lparr>label = ''A2'', visible = True\<rparr>],
          r_items_err_ax1 =
            [\<lparr>label = ''E1'', visible = False\<rparr>, \<lparr>label = ''E2'', visible = False\<rparr>],
          r_items_err_ax2 = [''E1'', ''E2''],
          r_batches_ax1 =
            [[\<lparr>label = ''A1'', visible = True\<rparr>, \<lparr>label = ''A2'', visible = True\<rparr>]],
          r_batches_ax2 =
            [[\<lparr>label = ''A1'', visible = True\<rparr>, \<lparr>label = ''A2'', visible = True\<rparr>]],
          r_batches_ax1_err =
            [[\<lparr>label = ''E1'', visible = False\<rparr>, \<lparr>label = ''E2'', visible = False\<rparr>]],
          r_batches_ax2_err = [[''E1'', ''E2'']],
          r_ranges = \<lparr>xmin = - 400, xmax = 400, ylmin = 3.6, ylmax = 6.6,
                       yumin = 2.7, yumax = 5.5\<rparr>,
          r_titles = (''Amplitude vs Antenna'', ''Phase [Deg] vs Antenna''),
          r_ant_labs = [''A0 - A15''],
          r_view = \<lparr>antsel_active = False, antsel_label = ''Select All Antennas'',
                     batchsel_active = [], glyph1 = [True, True], glyph2 = [True, True]\<rparr>\<rparr> =
        [\<lparr>label = ''A1'', visible = True\<rparr>, \<lparr>label = ''A2'', visible = True\<rparr>]
   \<and> ExportSvgs ''%s_%s'' \<in> set (fst (main (example_config ''ap'') example_world))"
proof -
  let ?st = "\<lparr>legend_items_ax1 =
            [\<lparr>label = ''A1'', visible = False\<rparr>, \<lparr>label = ''A2'', visible = False\<rparr>],
          legend_items_ax2 =
            [\<lparr>label = ''A1'', visible = False\<rparr>, \<lparr>label = ''A2'', visible = False\<rparr>],
          legend_items_err_ax1 =
            [\<lparr>label = ''E1'', visible = False\<rparr>, \<lparr>label = ''E2'', visible = False\<rparr>],
          legend_items_err_ax2 = [''E1'', ''E2''],
          ext = \<lparr>xmin = 0, xmax = 0, ylmin = 4, ylmax = 6, yumin = 3, yumax = 5\<rparr>,
          labels = Some (''Antenna'', ''Amplitude'', ''Phase [Deg]'')\<rparr>"
  let ?r = "\<lparr>r_items_ax1 =
            [\<lparr>label = ''A1'', visible = True\<rparr>, \<lparr>label = ''A2'', visible = True\<rparr>],
          r_items_ax2 =
            [\<lparr>label = ''A1'', visible = True\<rparr>, \<lparr>label = ''A2'', visible = True\<rparr>],
          r_items_err_ax1 =
            [\<lparr>label = ''E1'', visible = False\<rparr>, \<lparr>label = ''E2'', visible = False\<rparr>],
          r_items_err_ax2 = [''E1'', ''E2''],
          r_batches_ax1 =
            [[\<lparr>label = ''A1'', visible = True\<rparr>, \<lparr>label = ''A2'', visible = True\<rparr>]],
          r_batches_ax2 =
            [[\<lparr>label = ''A1'', visible = True\<rparr>, \<lparr>label = ''A2'', visible = True\<rparr>]],
          r_batches_ax1_err =
            [[\<lparr>label = ''E1'', visible = False\<rparr>, \<lparr>label = ''E2'', visible = False\<rparr>]],
          r_batches_ax2_err = [[''E1'', ''E2'']],
          r_ranges = \<lparr>xmin = - 400, xmax = 400, ylmin = 3.6, ylmax = 6.6,
                       yumin = 2.7, yumax = 5.5\<rparr>,
          r_titles = (''Amplitude vs Antenna'', ''Phase [Deg] vs Antenna''),
          r_ant_labs = [''A0 - A15''],
          r_view = \<lparr>antsel_active = False, antsel_label = ''Select All Antennas'',
                     batchsel_active = [], glyph1 = [True, True], glyph2 = [True, True]\<rparr>\<rparr>"
  have h1: "snd (antenna_loop ''ap'' 0 0 ''x.K'' example_table None initial_state [1, 2])
      = Inr ?st"
    by (simp only: example_loop snd_conv)
  have h2: "list_all (\<lambda>ant. ant > 0) [1, 2::int]" by simp
  have h3: "snd (main_setup (example_config ''ap'') example_world) =
        Inr (''x.K'', ''plot_x.K_corr0_ap_field0'', example_table, [1, 2], None)"
    by (simp add: example_setup)
  have h4: "snd (main (example_config ''ap'') example_world) = Inr ?r"
    by (simp only: example_render snd_conv)
  note T = glyph_visibility [of "''ap''" 0 0 "''x.K''" example_table None "[1, 2]" ?st
      "example_config ''ap''" example_world "''x.K''" "''plot_x.K_corr0_ap_field0''"
      example_table "[1, 2]" None ?r]
  note a = conjunct1 [OF T, THEN mp, OF h1]
  note b = conjunct2 [OF T, THEN mp, OF conjI [OF h3 h4]]
  have n: "map (\<lambda>ant. \<not> ant > 0) [1, 2::int] = [False, False]" by simp
  have c1: "map visible (legend_items_ax1 ?st) = [False, False]"
    using conjunct1 [OF a] unfolding n .
  have c2: "map visible (legend_items_ax2 ?st) = [False, False]"
    using conjunct1 [OF conjunct2 [OF a]] unfolding n .
  have c3: "list_all (\<lambda>it. \<not> visible it) (legend_items_ax1 ?st @ legend_items_ax2 ?st)"
    by (rule conjunct2 [OF conjunct2 [OF a], THEN mp, OF h2])
  have c4: "r_items_ax1 ?r =
        [\<lparr>label = ''A1'', visible = True\<rparr>, \<lparr>label = ''A2'', visible = True\<rparr>]"
    by simp
  have c5: "r_items_ax2 ?r =
        [\<lparr>label = ''A1'', visible = True\<rparr>, \<lparr>label = ''A2'', visible = True\<rparr>]"
    by simp
  note c6 = conjunct2 [OF conjunct2 [OF b]]
  from h1 h2 c1 c2 c3 h3 h4 c4 c5 c6 show ?thesis by (intro conjI)
qed

text \<open>
  The claim as stated has every data glyph hidden after rendering when the selection
  excludes antenna 0. The run on the example table selects the antennas 1 and 2, and after
  its rendering every data glyph is visible. On the table with the antennas \<open>-1\<close> and 2 the
  glyph of antenna \<open>-1\<close> is created visible, although its ID is not 0.
\<close>

theorem glyph_visibility_counterexample:
  "main (example_config ''ap'') example_world =
     ([OutputFile ''plot_x.K_corr0_ap_field0.html'', OpenTable ''x.K'',
      GetCol ''ANTENNA1'', GetCol ''FIELD_ID'', GetCol ''FLAG'',
      Query 1 0, SubGetCol ''TIME'', SubGetCol ''FLAG'', SubGetCol ''PARAMERR'',
      SubGetCol ''ANTENNA1'', SubGetCol ''FPARAM'', SubClose,
      Query 2 0, SubGetCol ''TIME'', SubGetCol ''FLAG'', SubGetCol ''PARAMERR'',
      SubGetCol ''ANTENNA1'', SubGetCol ''FPARAM'', SubClose,
      CloseTable, ExportSvgs ''%s_%s'', ExportSvgs ''%s_%s'',
      Print ''Rendered: plot_x.K_corr0_ap_field0''],
      Inr \<lparr>r_items_ax1 =
            [\<lparr>label = ''A1'', visible = True\<rparr>, \<lparr>label = ''A2'', visible = True\<rparr>],
          r_items_ax2 =
            [\<lparr>label = ''A1'', visible = True\<rparr>, \<lparr>label = ''A2'', visible = True\<rparr>],
          r_items_err_ax1 =
            [\<lparr>label = ''E1'', visible = False\<rparr>, \<lparr>label = ''E2'', visible = False\<rparr>],
          r_items_err_ax2 = [''E1'', ''E2''],
          r_batches_ax1 =
            [[\<lparr>label = ''A1'', visible = True\<rparr>, \<lparr>label = ''A2'', visible = True\<rparr>]],
          r_batches_ax2 =
            [[\<lparr>label = ''A1'', visible = True\<rparr>, \<lparr>label = ''A2'', visible = True\<rparr>]],
          r_batches_ax1_err =
            [[\<lparr>label = ''E1'', visible = False\<rparr>, \<lparr>label = ''E2'', visible = False\<rparr>]],
          r_batches_ax2_err = [[''E1'', ''E2'']],
          r_ranges = \<lparr>xmin = - 400, xmax = 400, ylmin = 3.6, ylmax = 6.6,
                       yumin = 2.7, yumax = 5.5\<rparr>,
          r_titles = (''Amplitude vs Antenna'', ''Phase [Deg] vs Antenna''),
          r_ant_labs = [''A0 - A15''],
          r_view = \<lparr>antsel_active = False, antsel_label = ''Select All Antennas'',
                     batchsel_active = [], glyph1 = [True, True], glyph2 = [True, True]\<rparr>\<rparr>)
   \<and> antenna_loop ''ap'' 0 0 ''x.K'' example_table_neg None initial_state [- 1, 2] =
    ([Query (- 1) 0, SubGetCol ''TIME'', SubGetCol ''FLAG'',
      SubGetCol ''PARAMERR'', SubGetCol ''ANTENNA1'', SubGetCol ''FPARAM'',
      SubClose, Query 2 0, SubGetCol ''TIME'', SubGetCol ''FLAG'',
      SubGetCol ''PARAMERR'', SubGetCol ''ANTENNA1'', SubGetCol ''FPARAM'',
      SubClose],
     Inr \<lparr>legend_items_ax1 =
            [\<lparr>label = ''A-1'', visible = True\<rparr>, \<lparr>label = ''A2'', visible = False\<rparr>],
          legend_items_ax2 =
            [\<lparr>label = ''A-1'', visible = True\<rparr>, \<lparr>label = ''A2'', visible = False\<rparr>],
          legend_items_err_ax1 =
            [\<lparr>label = ''E-1'', visible = False\<rparr>, \<lparr>label = ''E2'', visible = False\<rparr>],
          legend_items_err_ax2 = [''E-1'', ''E2''],
          ext = \<lparr>xmin = 0, xmax = 0, ylmin = 4, ylmax = 6, yumin = 3, yumax = 5\<rparr>,
          labels = Some (''Antenna'', ''Amplitude'', ''Phase [Deg]'')\<rparr>)"
  by (simp only: example_render example_loop_neg simp_thms)

end
